theory Spec2Isabelle
  imports Complex_Main
begin

section \<open>JavaScript numbers\<close>

text \<open>
  Every quantity of the pipeline is a JavaScript \<open>number\<close>, an IEEE double. The model
  keeps the special values that the code can reach through its unguarded divisions and
  that change the outcome of comparisons: \<open>NaN\<close>, the two infinities and the negative
  zero. \<open>Fin x\<close> is the finite number \<open>x\<close>, with \<open>Fin 0\<close> the positive zero;
  \<open>NegZero\<close> is \<open>-0\<close>. The operations of this section compute the exact result with
  the IEEE rules for the special values and for the sign of a zero.
\<close>

datatype jsnum = NaN | NegInf | Fin real | NegZero | PosInf

fun js_neg :: "jsnum \<Rightarrow> jsnum" where
  "js_neg NaN = NaN"
| "js_neg NegInf = PosInf"
| "js_neg (Fin x) = (if x = 0 then NegZero else Fin (- x))"
| "js_neg NegZero = Fin 0"
| "js_neg PosInf = NegInf"

fun js_add :: "jsnum \<Rightarrow> jsnum \<Rightarrow> jsnum" where
  "js_add NaN _ = NaN"
| "js_add _ NaN = NaN"
| "js_add NegZero b = b"
| "js_add a NegZero = a"
| "js_add (Fin x) (Fin y) = Fin (x + y)"
| "js_add (Fin x) b = b"
| "js_add a (Fin y) = a"
| "js_add a b = (if a = b then a else NaN)"

definition js_sub :: "jsnum \<Rightarrow> jsnum \<Rightarrow> jsnum" where
  "js_sub a b = js_add a (js_neg b)"

text \<open>
  A product or quotient that is zero takes the sign that its operands give it:
  negative when exactly one of them is negative.
\<close>

fun js_mul :: "jsnum \<Rightarrow> jsnum \<Rightarrow> jsnum" where
  "js_mul NaN _ = NaN"
| "js_mul _ NaN = NaN"
| "js_mul (Fin x) (Fin y) =
     (if x * y = 0 then (if (x < 0) \<noteq> (y < 0) then NegZero else Fin 0) else Fin (x * y))"
| "js_mul (Fin x) NegZero = (if x < 0 then Fin 0 else NegZero)"
| "js_mul NegZero (Fin y) = (if y < 0 then Fin 0 else NegZero)"
| "js_mul NegZero NegZero = Fin 0"
| "js_mul NegZero b = NaN"
| "js_mul a NegZero = NaN"
| "js_mul (Fin x) b = (if x = 0 then NaN else if 0 < x then b else js_neg b)"
| "js_mul a (Fin y) = (if y = 0 then NaN else if 0 < y then a else js_neg a)"
| "js_mul a b = (if a = b then PosInf else NegInf)"

fun js_div :: "jsnum \<Rightarrow> jsnum \<Rightarrow> jsnum" where
  "js_div NaN _ = NaN"
| "js_div _ NaN = NaN"
| "js_div (Fin x) (Fin y) =
     (if y = 0 then (if x = 0 then NaN else if 0 < x then PosInf else NegInf)
      else if x = 0 then (if y < 0 then NegZero else Fin 0)
      else Fin (x / y))"
| "js_div (Fin x) NegZero = (if x = 0 then NaN else if 0 < x then NegInf else PosInf)"
| "js_div NegZero (Fin y) = (if y = 0 then NaN else if y < 0 then Fin 0 else NegZero)"
| "js_div NegZero NegZero = NaN"
| "js_div (Fin x) PosInf = (if x < 0 then NegZero else Fin 0)"
| "js_div (Fin x) NegInf = (if x < 0 then Fin 0 else NegZero)"
| "js_div NegZero PosInf = NegZero"
| "js_div NegZero NegInf = Fin 0"
| "js_div a (Fin y) = (if 0 \<le> y then a else js_neg a)"
| "js_div a NegZero = js_neg a"
| "js_div a b = NaN"

text \<open>
  The relational operators: every comparison with \<open>NaN\<close> is false, and the two zeros
  compare equal.
\<close>

fun js_lt :: "jsnum \<Rightarrow> jsnum \<Rightarrow> bool" where
  "js_lt NaN _ = False"
| "js_lt _ NaN = False"
| "js_lt (Fin x) (Fin y) = (x < y)"
| "js_lt (Fin x) NegZero = (x < 0)"
| "js_lt NegZero (Fin y) = (0 < y)"
| "js_lt NegZero NegZero = False"
| "js_lt NegInf b = (b \<noteq> NegInf)"
| "js_lt a PosInf = (a \<noteq> PosInf)"
| "js_lt a b = False"

definition js_gt :: "jsnum \<Rightarrow> jsnum \<Rightarrow> bool" where
  "js_gt a b = js_lt b a"

definition js_le :: "jsnum \<Rightarrow> jsnum \<Rightarrow> bool" where
  "js_le a b = (a \<noteq> NaN \<and> b \<noteq> NaN \<and> \<not> js_lt b a)"

definition js_ge :: "jsnum \<Rightarrow> jsnum \<Rightarrow> bool" where
  "js_ge a b = js_le b a"

text \<open>
  \<open>Math.min\<close>, \<open>Math.max\<close>, \<open>Math.abs\<close>, \<open>Math.sqrt\<close> and truthiness of a number.
  Of two zeros \<open>Math.min\<close> returns the negative and \<open>Math.max\<close> the positive one.
\<close>

definition js_min :: "jsnum \<Rightarrow> jsnum \<Rightarrow> jsnum" where
  "js_min a b =
     (if a = NaN \<or> b = NaN then NaN
      else if js_lt b a then b
      else if js_lt a b then a
      else if b = NegZero then b else a)"

definition js_max :: "jsnum \<Rightarrow> jsnum \<Rightarrow> jsnum" where
  "js_max a b =
     (if a = NaN \<or> b = NaN then NaN
      else if js_lt a b then b
      else if js_lt b a then a
      else if a = NegZero then b else a)"

fun js_abs :: "jsnum \<Rightarrow> jsnum" where
  "js_abs NaN = NaN"
| "js_abs NegInf = PosInf"
| "js_abs (Fin x) = Fin \<bar>x\<bar>"
| "js_abs NegZero = Fin 0"
| "js_abs PosInf = PosInf"

fun js_sqrt :: "jsnum \<Rightarrow> jsnum" where
  "js_sqrt NaN = NaN"
| "js_sqrt NegInf = NaN"
| "js_sqrt (Fin x) = (if x < 0 then NaN else Fin (sqrt x))"
| "js_sqrt NegZero = NegZero"
| "js_sqrt PosInf = PosInf"

definition js_truthy :: "jsnum \<Rightarrow> bool" where
  "js_truthy a = (a \<noteq> NaN \<and> a \<noteq> Fin 0 \<and> a \<noteq> NegZero)"

subsection \<open>Rounding\<close>

text \<open>
  An arithmetic operation of the program returns the double nearest to the exact
  result. \<open>rnd\<close> stands for the rounding of a real number to the nearest number in the
  format of doubles with the exponent unbounded above; \<open>fl rnd\<close> applies it to a
  finite result: a rounded result beyond the largest double \<open>maxDouble\<close> is the
  infinity of its sign, a negative result that rounds to zero is the negative zero, and
  the special values stay as they are. The functions of the guardian, the debate and the
  execution engine take \<open>rnd\<close> as a parameter and round every operation, in the
  order in which the source evaluates it. A decimal literal of the source is written as
  the number it spells. The detector, the risk assessor and the allocator are written
  with the exact operations: what is proved of them does not depend on the rounding of a
  result.
\<close>

definition maxDouble :: real where
  "maxDouble = (2 ^ 53 - 1) * 2 ^ 971"

definition fl :: "(real \<Rightarrow> real) \<Rightarrow> jsnum \<Rightarrow> jsnum" where
  "fl rnd a =
     (case a of
        Fin x \<Rightarrow>
          (if maxDouble < rnd x then PosInf
           else if rnd x < - maxDouble then NegInf
           else if rnd x = 0 \<and> x < 0 then NegZero
           else Fin (rnd x))
      | _ \<Rightarrow> a)"

definition fl_add :: "(real \<Rightarrow> real) \<Rightarrow> jsnum \<Rightarrow> jsnum \<Rightarrow> jsnum" where
  "fl_add rnd a b = fl rnd (js_add a b)"

definition fl_sub :: "(real \<Rightarrow> real) \<Rightarrow> jsnum \<Rightarrow> jsnum \<Rightarrow> jsnum" where
  "fl_sub rnd a b = fl rnd (js_sub a b)"

definition fl_mul :: "(real \<Rightarrow> real) \<Rightarrow> jsnum \<Rightarrow> jsnum \<Rightarrow> jsnum" where
  "fl_mul rnd a b = fl rnd (js_mul a b)"

definition fl_div :: "(real \<Rightarrow> real) \<Rightarrow> jsnum \<Rightarrow> jsnum \<Rightarrow> jsnum" where
  "fl_div rnd a b = fl rnd (js_div a b)"

text \<open>
  The properties of rounding to the nearest double that the proofs use: it is monotone,
  keeps the natural numbers up to \<open>2 ^ 53\<close> and every number it returns (a double
  rounds to itself), the difference of two distinct doubles does not round to zero, and
  the quotient of a double by a larger one rounds to less than one.
\<close>

definition faithfulRounding :: "(real \<Rightarrow> real) \<Rightarrow> bool" where
  "faithfulRounding rnd \<longleftrightarrow>
     (\<forall>x y. x \<le> y \<longrightarrow> rnd x \<le> rnd y)
     \<and> (\<forall>n::nat. n \<le> 2 ^ 53 \<longrightarrow> rnd (real n) = real n)
     \<and> (\<forall>x. rnd (rnd x) = rnd x)
     \<and> (\<forall>a b. rnd a = a \<and> rnd b = b \<and> b < a \<longrightarrow> 0 < rnd (a - b))
     \<and> (\<forall>a b. rnd a = a \<and> rnd b = b \<and> 0 \<le> a \<and> a < b \<longrightarrow> rnd (a / b) < 1)"

section \<open>Shared records\<close>

text \<open>
  The records carry the fields that the decision logic reads. Free-text fields built for
  display (\<open>reason\<close> strings, \<open>notes\<close>, \<open>reasons\<close>, \<open>raw\<close>) are left out; where
  a message identifies the branch taken, it is a constructor holding the numbers that the
  source formats into the text.
\<close>

record Opportunity =
  oppId :: string
  symbol :: string
  spreadPct :: jsnum
  action :: string
  estimatedGrossProfitPct :: jsnum
  binancePrice :: jsnum
  indianPrice :: jsnum
  firstSeenTs :: int
  lastSeenTs :: int
  persistenceCount :: nat

record LiquidityEstimate =
  fillableQty :: jsnum
  expectedAvgPrice :: jsnum

record RiskAssessmentResult =
  riskScore :: jsnum
  slippagePct :: jsnum
  volatilityPct :: jsnum
  liquidityEstimate :: LiquidityEstimate

record AllocationResult =
  allocationPct :: jsnum
  allocatedUSDT :: jsnum

record Portfolio =
  cash :: jsnum
  totalValue :: jsnum

record AuditLogEntry =
  timestamp :: int
  logAction :: string

record GuardianConfig =
  maxTradePctOfPortfolio :: jsnum
  dailyMaxTrades :: jsnum
  globalMaxExposurePct :: jsnum
  vetoExchangeOutage :: bool
  vetoHighVolatility :: bool

section \<open>Guardian\<close>

datatype veto_reason =
    TradeSizeExceedsLimit jsnum jsnum
  | DailyTradeLimitReached jsnum
  | HighVolatilityExceeds jsnum
  | RiskScoreTooHigh jsnum

datatype guardian_warning = HighExposure jsnum

record GuardianResult =
  pass :: bool
  reason :: "veto_reason option"
  warnings :: "guardian_warning list"

text \<open>
  \<open>todayLogs\<close>: the audit entries with a truthy timestamp whose local calendar day is
  today's and whose action is \<open>execution_completed\<close>. \<open>toDateString\<close> (which depends
  on the time zone of the host) is a parameter. \<open>guardianCheck\<close> reads the portfolio,
  the audit log and (when no configuration is passed) the guardian settings from the
  state store; here they are arguments.
\<close>

definition todayLogs :: "(int \<Rightarrow> string) \<Rightarrow> int \<Rightarrow> AuditLogEntry list \<Rightarrow> AuditLogEntry list" where
  "todayLogs toDateString now auditLog =
     filter (\<lambda>log. timestamp log \<noteq> 0 \<and> toDateString (timestamp log) = toDateString now
                   \<and> logAction log = ''execution_completed'') auditLog"

definition guardianCheck ::
  "(real \<Rightarrow> real) \<Rightarrow> (int \<Rightarrow> string) \<Rightarrow> int \<Rightarrow> Portfolio \<Rightarrow> AuditLogEntry list \<Rightarrow>
   RiskAssessmentResult \<Rightarrow> AllocationResult \<Rightarrow> GuardianConfig \<Rightarrow> GuardianResult" where
  "guardianCheck rnd toDateString now portfolio auditLog risk allocation config =
    (let tradePct = fl_div rnd (allocatedUSDT allocation) (totalValue portfolio) in
     if js_gt tradePct (maxTradePctOfPortfolio config) then
       \<lparr>pass = False,
        reason = Some (TradeSizeExceedsLimit (fl_mul rnd tradePct (Fin 100))
                         (fl_mul rnd (maxTradePctOfPortfolio config) (Fin 100))),
        warnings = []\<rparr>
     else if js_ge (Fin (real (length (todayLogs toDateString now auditLog))))
                   (dailyMaxTrades config) then
       \<lparr>pass = False, reason = Some (DailyTradeLimitReached (dailyMaxTrades config)),
        warnings = []\<rparr>
     else
       let currentExposure =
             fl_div rnd (fl_sub rnd (totalValue portfolio) (cash portfolio))
                        (totalValue portfolio);
           ws = (if js_gt currentExposure (globalMaxExposurePct config)
                 then [HighExposure (fl_mul rnd currentExposure (Fin 100))] else [])
       in if vetoHighVolatility config \<and> js_gt (volatilityPct risk) (Fin 2.0) then
            \<lparr>pass = False, reason = Some (HighVolatilityExceeds (volatilityPct risk)),
             warnings = ws\<rparr>
          else if js_gt (riskScore risk) (Fin 75) then
            \<lparr>pass = False, reason = Some (RiskScoreTooHigh (riskScore risk)), warnings = ws\<rparr>
          else \<lparr>pass = True, reason = None, warnings = ws\<rparr>)"

section \<open>Capital allocation\<close>

text \<open>
  The portfolio argument of the allocator (\<open>Portfolio\<close> in \<open>capitalAllocation.ts\<close>, a
  type of its own, distinct from the persisted portfolio). The body of
  \<open>allocateCapitalForOpportunity\<close> runs inside \<open>try\<close>; for arguments of the declared
  types none of its statements throws, so the zero allocation of the \<open>catch\<close> branch
  is not reached and the function is its \<open>try\<close> body.
\<close>

record AllocationPortfolio =
  usdtBalance :: jsnum
  maxTradeAmount :: jsnum

definition allocateCapitalForOpportunity ::
  "Opportunity \<Rightarrow> RiskAssessmentResult \<Rightarrow> AllocationPortfolio \<Rightarrow> AllocationResult" where
  "allocateCapitalForOpportunity opportunity risk portfolio =
    (let pct = (if js_gt (riskScore risk) (Fin 80) then Fin 0.02
                else if js_ge (riskScore risk) (Fin 60) then Fin 0.05
                else if js_ge (riskScore risk) (Fin 30) then Fin 0.10
                else Fin 0.15);
         potentialAllocation = js_mul (usdtBalance portfolio) pct
     in \<lparr>allocationPct = pct,
         allocatedUSDT = js_min potentialAllocation (maxTradeAmount portfolio)\<rparr>)"

section \<open>Risk assessment\<close>

record PriceTick =
  price :: jsnum
  tickTimestamp :: int

text \<open>
  Step 1 of \<open>assessRisk\<close>: the coefficient of variation of the rolling price history in
  percent, or the assumed 0.5 when the history has fewer than two ticks.
\<close>

definition historyVolatility :: "PriceTick list \<Rightarrow> jsnum" where
  "historyVolatility priceHistory =
    (if 2 \<le> length priceHistory then
       let prices = map price priceHistory;
           n = Fin (real (length prices));
           mean = js_div (foldl js_add (Fin 0) prices) n;
           variance = js_div (foldl (\<lambda>sum p. js_add sum (js_mul (js_sub p mean) (js_sub p mean)))
                                (Fin 0) prices) n;
           stdDev = js_sqrt variance
       in js_mul (js_div stdDev mean) (Fin 100)
     else Fin 0.5)"

text \<open>Steps 4 to 7: the successive adjustments of the running \<open>riskScore\<close>.\<close>

definition spreadAdjust :: "jsnum \<Rightarrow> jsnum \<Rightarrow> jsnum" where
  "spreadAdjust spread score =
    (if js_gt spread (Fin 2.0) then js_sub score (Fin 20)
     else if js_gt spread (Fin 1.0) then js_sub score (Fin 10)
     else if js_lt spread (Fin 0.5) then js_add score (Fin 20)
     else score)"

definition volatilityAdjust :: "jsnum \<Rightarrow> jsnum \<Rightarrow> jsnum" where
  "volatilityAdjust vol score =
    (if js_gt vol (Fin 1.0) then js_add score (Fin 25)
     else if js_gt vol (Fin 0.5) then js_add score (Fin 15)
     else if js_lt vol (Fin 0.1) then js_sub score (Fin 10)
     else score)"

definition fillAdjust :: "jsnum \<Rightarrow> jsnum \<Rightarrow> jsnum" where
  "fillAdjust fillRatio score =
    (if js_lt fillRatio (Fin 0.5) then js_add score (Fin 30)
     else if js_lt fillRatio (Fin 0.8) then js_add score (Fin 15)
     else if js_ge fillRatio (Fin 1.0) then js_sub score (Fin 5)
     else score)"

definition slippageAdjust :: "jsnum \<Rightarrow> jsnum \<Rightarrow> jsnum" where
  "slippageAdjust slippage score =
    (if js_gt (js_abs slippage) (Fin 0.5) then js_add score (Fin 20)
     else if js_gt (js_abs slippage) (Fin 0.2) then js_add score (Fin 10)
     else score)"

text \<open>
  \<open>assessRisk\<close>. The price history of the symbol and the answer of
  \<open>getIndianLiquidityEstimate\<close> are inputs; \<open>None\<close> for the latter is the call throwing,
  which the \<open>catch\<close> branch turns into the conservative result with score 80. The
  optional \<open>targetQuantity\<close> defaults to 1.
\<close>

definition assessRisk ::
  "Opportunity \<Rightarrow> jsnum option \<Rightarrow> PriceTick list \<Rightarrow> LiquidityEstimate option
   \<Rightarrow> RiskAssessmentResult" where
  "assessRisk opportunity targetQuantityArg priceHistory liquidity =
    (case liquidity of
       None \<Rightarrow> \<lparr>riskScore = Fin 80, slippagePct = Fin 1.0, volatilityPct = Fin 1.0,
                liquidityEstimate = \<lparr>fillableQty = Fin 0, expectedAvgPrice = Fin 0\<rparr>\<rparr>
     | Some estimate \<Rightarrow>
        let targetQuantity = (case targetQuantityArg of None \<Rightarrow> Fin 1 | Some q \<Rightarrow> q);
            vol = historyVolatility priceHistory;
            midPrice = indianPrice opportunity;
            slippage = (if js_gt (fillableQty estimate) (Fin 0)
                        then js_mul (js_div (js_sub (expectedAvgPrice estimate) midPrice) midPrice)
                                    (Fin 100)
                        else Fin 1.0);
            fillRatio = js_div (fillableQty estimate) targetQuantity;
            score = slippageAdjust slippage
                      (fillAdjust fillRatio
                        (volatilityAdjust vol
                          (spreadAdjust (spreadPct opportunity) (Fin 50))))
        in \<lparr>riskScore = js_max (Fin 0) (js_min (Fin 100) score),
            slippagePct = js_abs slippage,
            volatilityPct = vol,
            liquidityEstimate = estimate\<rparr>)"

section \<open>Debate with median consensus\<close>

text \<open>
  \<open>Array.prototype.sort\<close> with a comparator: a stable insertion sort, where an element
  moves behind another one exactly when the comparator's result is positive (a \<open>NaN\<close>
  result counts as zero, as the language prescribes). For a comparator that orders the
  elements consistently this is the list every conforming engine returns; when
  \<open>NaN\<close> results make the comparator inconsistent the language leaves the order open,
  and only the elements of the result are determined.
\<close>

fun jsInsert :: "('a \<Rightarrow> 'a \<Rightarrow> jsnum) \<Rightarrow> 'a \<Rightarrow> 'a list \<Rightarrow> 'a list" where
  "jsInsert cmp x [] = [x]"
| "jsInsert cmp x (y # ys) =
     (if js_gt (cmp x y) (Fin 0) then y # jsInsert cmp x ys else x # y # ys)"

definition jsSort :: "('a \<Rightarrow> 'a \<Rightarrow> jsnum) \<Rightarrow> 'a list \<Rightarrow> 'a list" where
  "jsSort cmp xs = foldr (jsInsert cmp) xs []"

datatype decision = Execute | Wait

text \<open>Each perspective is represented by its score.\<close>

record DebateResult =
  bullish :: jsnum
  bearish :: jsnum
  neutral :: jsnum
  finalDecisionScore :: jsnum
  decision :: decision

text \<open>
  What the perspective provider does in one call: no client is configured
  (\<open>NoClient\<close>); the request, the JSON parsing or the access to a perspective throws
  (\<open>CallFails\<close>); or a reply is parsed, with the three \<open>score\<close> fields, each a number or
  absent (\<open>Replied\<close>).
\<close>

datatype provider_outcome =
    NoClient
  | CallFails
  | Replied "jsnum option" "jsnum option" "jsnum option"

text \<open>\<open>x || 0\<close> on a score field, and the clamp \<open>Math.max(0, Math.min(1, x))\<close>.\<close>

definition orZero :: "jsnum option \<Rightarrow> jsnum" where
  "orZero v = (case v of None \<Rightarrow> Fin 0 | Some x \<Rightarrow> if js_truthy x then x else Fin 0)"

definition clamp01 :: "jsnum \<Rightarrow> jsnum" where
  "clamp01 x = js_max (Fin 0) (js_min (Fin 1) x)"

definition fallbackDebateResult ::
  "(real \<Rightarrow> real) \<Rightarrow> Opportunity \<Rightarrow> RiskAssessmentResult \<Rightarrow> AllocationResult \<Rightarrow> jsnum
   \<Rightarrow> DebateResult" where
  "fallbackDebateResult rnd o' r a t =
    (let spreadScore = js_min (Fin 1) (fl_div rnd (spreadPct o') (Fin 3));
         riskPenalty = fl_div rnd (riskScore r) (Fin 100);
         bullishScore = js_max (Fin 0) (js_min (Fin 1)
                           (fl_sub rnd spreadScore (fl_mul rnd riskPenalty (Fin 0.3))));
         bearishScore = js_max (Fin 0) (js_min (Fin 1) riskPenalty);
         neutralScore = Fin 0.5;
         scores = jsSort (\<lambda>a b. fl_sub rnd a b)
                    [bullishScore, fl_sub rnd (Fin 1) bearishScore, neutralScore]
     in \<lparr>bullish = bullishScore, bearish = bearishScore, neutral = neutralScore,
         finalDecisionScore = scores ! 1,
         decision = (if js_ge (scores ! 1) t then Execute else Wait)\<rparr>)"

definition debateWithMedianConsensus ::
  "(real \<Rightarrow> real) \<Rightarrow> provider_outcome \<Rightarrow> Opportunity \<Rightarrow> RiskAssessmentResult
   \<Rightarrow> AllocationResult \<Rightarrow> jsnum option \<Rightarrow> DebateResult" where
  "debateWithMedianConsensus rnd provider opportunity risk allocation thresholdArg =
    (let executeConfidenceThreshold = (case thresholdArg of None \<Rightarrow> Fin 0.6 | Some t \<Rightarrow> t)
     in case provider of
          NoClient \<Rightarrow>
            fallbackDebateResult rnd opportunity risk allocation executeConfidenceThreshold
        | CallFails \<Rightarrow>
            fallbackDebateResult rnd opportunity risk allocation executeConfidenceThreshold
        | Replied b be n \<Rightarrow>
            let bullishScore = js_max (Fin 0) (js_min (Fin 1) (orZero b));
                bearishScore = js_max (Fin 0) (js_min (Fin 1) (orZero be));
                neutralScore = js_max (Fin 0) (js_min (Fin 1) (orZero n));
                scores = jsSort (\<lambda>a b. fl_sub rnd a b)
                           [bullishScore, fl_sub rnd (Fin 1) bearishScore, neutralScore];
                finalScore = scores ! 1
            in \<lparr>bullish = bullishScore, bearish = bearishScore, neutral = neutralScore,
                finalDecisionScore = finalScore,
                decision = (if js_ge finalScore executeConfidenceThreshold
                            then Execute else Wait)\<rparr>)"

section \<open>Opportunity detector\<close>

text \<open>
  The fields of a \<open>DiscoveredPrice\<close> that the detector reads (prefixed, as \<open>symbol\<close>,
  \<open>binancePrice\<close> and \<open>indianPrice\<close> are fields of \<open>Opportunity\<close> too), the entry of
  the persistence buffer (its own time stamps and count prefixed for the same reason),
  and the options with their defaults.
\<close>

record DiscoveredPrice =
  dpSymbol :: string
  dpBinancePrice :: jsnum
  dpIndianPrice :: jsnum

record OpportunityPersistence =
  opportunityKey :: string
  bufFirstSeenTs :: int
  bufLastSeenTs :: int
  bufPersistenceCount :: nat
  data :: Opportunity

record DetectArbitrageOptions =
  minSpreadPct :: "jsnum option"
  persistenceMs :: "jsnum option"
  minPersistenceCount :: "jsnum option"

definition optMinSpreadPct :: "DetectArbitrageOptions \<Rightarrow> jsnum" where
  "optMinSpreadPct opts = (case minSpreadPct opts of None \<Rightarrow> Fin 0.5 | Some v \<Rightarrow> v)"

definition optPersistenceMs :: "DetectArbitrageOptions \<Rightarrow> jsnum" where
  "optPersistenceMs opts = (case persistenceMs opts of None \<Rightarrow> Fin 2000 | Some v \<Rightarrow> v)"

definition optMinPersistenceCount :: "DetectArbitrageOptions \<Rightarrow> jsnum" where
  "optMinPersistenceCount opts = (case minPersistenceCount opts of None \<Rightarrow> Fin 2 | Some v \<Rightarrow> v)"

definition spreadPctOf :: "DiscoveredPrice \<Rightarrow> jsnum" where
  "spreadPctOf priceData =
     js_mul (js_div (js_sub (dpIndianPrice priceData) (dpBinancePrice priceData))
                    (dpBinancePrice priceData)) (Fin 100)"

definition actionOf :: "jsnum \<Rightarrow> string" where
  "actionOf spread =
     (if js_gt spread (Fin 0) then ''buy-binance-sell-india'' else ''buy-india-sell-binance'')"

definition keyOf :: "string \<Rightarrow> string \<Rightarrow> string" where
  "keyOf symb act = symb @ ''_'' @ act"

text \<open>
  The state of one poll: the module-level \<open>persistenceBuffer\<close> (a \<open>Map\<close> from key to
  entry), the keys seen so far in this poll, and the opportunities pushed so far.
\<close>

record PollState =
  persistenceBuffer :: "string \<rightharpoonup> OpportunityPersistence"
  seenKeys :: "string set"
  opportunities :: "Opportunity list"

text \<open>
  The two branches on the buffer lookup: an existing entry is updated in place and gets
  a fresh snapshot \<open>data\<close> that copies the old one and overwrites six fields; a missing
  entry is created with count 1. \<open>spread\<close> is the signed spread of the price record.
\<close>

definition updateEntry ::
  "int \<Rightarrow> jsnum \<Rightarrow> DiscoveredPrice \<Rightarrow> OpportunityPersistence \<Rightarrow> OpportunityPersistence" where
  "updateEntry currentTime spread priceData p =
     p\<lparr>bufLastSeenTs := currentTime,
       bufPersistenceCount := bufPersistenceCount p + 1,
       data := (data p)
         \<lparr>spreadPct := js_abs spread,
          estimatedGrossProfitPct := js_sub (js_abs spread) (Fin 0.3),
          binancePrice := dpBinancePrice priceData,
          indianPrice := dpIndianPrice priceData,
          lastSeenTs := currentTime,
          persistenceCount := bufPersistenceCount p + 1\<rparr>\<rparr>"

definition newEntry ::
  "int \<Rightarrow> jsnum \<Rightarrow> string \<Rightarrow> string \<Rightarrow> string \<Rightarrow> DiscoveredPrice \<Rightarrow> OpportunityPersistence" where
  "newEntry currentTime spread act key freshId priceData =
     \<lparr>opportunityKey = key,
      bufFirstSeenTs = currentTime,
      bufLastSeenTs = currentTime,
      bufPersistenceCount = 1,
      data =
        \<lparr>oppId = freshId,
         symbol = dpSymbol priceData,
         spreadPct = js_abs spread,
         action = act,
         estimatedGrossProfitPct = js_sub (js_abs spread) (Fin 0.3),
         binancePrice = dpBinancePrice priceData,
         indianPrice = dpIndianPrice priceData,
         firstSeenTs = currentTime,
         lastSeenTs = currentTime,
         persistenceCount = 1\<rparr>\<rparr>"

text \<open>The persistence check on the entry: \<open>meetsCountCriteria || meetsTimeCriteria\<close>.\<close>

definition entryMeetsCriteria ::
  "DetectArbitrageOptions \<Rightarrow> int \<Rightarrow> OpportunityPersistence \<Rightarrow> bool" where
  "entryMeetsCriteria opts currentTime persistence =
    (let timePersisted = currentTime - bufFirstSeenTs persistence;
         meetsCountCriteria =
           js_ge (Fin (real (bufPersistenceCount persistence))) (optMinPersistenceCount opts);
         meetsTimeCriteria = js_ge (Fin (real_of_int timePersisted)) (optPersistenceMs opts)
     in meetsCountCriteria \<or> meetsTimeCriteria)"

text \<open>
  One iteration of the loop over \<open>prices\<close>. \<open>currentTime\<close> is the \<open>Date.now()\<close> read
  at the start of the poll; \<open>newId\<close> supplies the identifier generated when the
  iteration creates an entry (within one poll an entry is created at most once per key,
  and equal price records have equal keys).
\<close>

definition detectStep ::
  "DetectArbitrageOptions \<Rightarrow> int \<Rightarrow> (DiscoveredPrice \<Rightarrow> string) \<Rightarrow> PollState
   \<Rightarrow> DiscoveredPrice \<Rightarrow> PollState" where
  "detectStep opts currentTime newId st priceData =
    (if \<not> js_truthy (dpBinancePrice priceData) \<or> \<not> js_truthy (dpIndianPrice priceData)
     then st
     else
       let spread = spreadPctOf priceData in
       if js_lt (js_abs spread) (optMinSpreadPct opts) then st
       else
         let act = actionOf spread;
             key = keyOf (dpSymbol priceData) act;
             persistence =
               (case persistenceBuffer st key of
                  Some p \<Rightarrow> updateEntry currentTime spread priceData p
                | None \<Rightarrow> newEntry currentTime spread act key (newId priceData) priceData)
         in \<lparr>persistenceBuffer = (persistenceBuffer st)(key \<mapsto> persistence),
             seenKeys = insert key (seenKeys st),
             opportunities =
               (if entryMeetsCriteria opts currentTime persistence
                then opportunities st @ [data persistence] else opportunities st)\<rparr>)"

text \<open>The clean-up after the loop: unseen entries older than ten seconds are deleted.\<close>

definition purgeStale ::
  "int \<Rightarrow> string set \<Rightarrow> (string \<rightharpoonup> OpportunityPersistence)
   \<Rightarrow> (string \<rightharpoonup> OpportunityPersistence)" where
  "purgeStale currentTime seen buf =
    (\<lambda>key. case buf key of
              None \<Rightarrow> None
            | Some p \<Rightarrow>
                if key \<notin> seen \<and> currentTime - bufLastSeenTs p > 10000 then None else Some p)"

text \<open>
  \<open>detectArbitrage\<close> returns the opportunities, sorted by descending estimated profit,
  and leaves the buffer updated: the result pairs the list with the new buffer.
\<close>

definition detectArbitrage ::
  "DetectArbitrageOptions \<Rightarrow> int \<Rightarrow> (DiscoveredPrice \<Rightarrow> string) \<Rightarrow> DiscoveredPrice list
   \<Rightarrow> (string \<rightharpoonup> OpportunityPersistence)
   \<Rightarrow> Opportunity list \<times> (string \<rightharpoonup> OpportunityPersistence)" where
  "detectArbitrage opts currentTime newId prices buf =
    (let st = foldl (detectStep opts currentTime newId)
                \<lparr>persistenceBuffer = buf, seenKeys = {}, opportunities = []\<rparr> prices
     in (jsSort (\<lambda>a b. js_sub (estimatedGrossProfitPct b) (estimatedGrossProfitPct a))
           (opportunities st),
         purgeStale currentTime (seenKeys st) (persistenceBuffer st)))"

text \<open>
  The buffers the program can hold: the buffer is private to the detector module, is
  empty when the module is loaded, and changes only through \<open>detectArbitrage\<close>.
\<close>

inductive reachableBuffer :: "(string \<rightharpoonup> OpportunityPersistence) \<Rightarrow> bool" where
  initial: "reachableBuffer Map.empty"
| poll: "reachableBuffer buf \<Longrightarrow>
         reachableBuffer (snd (detectArbitrage opts currentTime newId prices buf))"

text \<open>
  A price record is observed under a key in a poll when it passes both guards of the
  loop (prices present, spread not below the minimum) and the key is the one the loop
  computes for it.
\<close>

definition observes :: "DetectArbitrageOptions \<Rightarrow> DiscoveredPrice \<Rightarrow> string \<Rightarrow> bool" where
  "observes opts priceData key \<longleftrightarrow>
     js_truthy (dpBinancePrice priceData) \<and> js_truthy (dpIndianPrice priceData)
     \<and> \<not> js_lt (js_abs (spreadPctOf priceData)) (optMinSpreadPct opts)
     \<and> key = keyOf (dpSymbol priceData) (actionOf (spreadPctOf priceData))"

text \<open>
  The two persistence criteria, read on an emitted opportunity, and the consistency of
  a buffer entry with the snapshot it holds.
\<close>

definition meetsPersistence :: "DetectArbitrageOptions \<Rightarrow> Opportunity \<Rightarrow> bool" where
  "meetsPersistence opts opp \<longleftrightarrow>
     js_ge (Fin (real_of_int (lastSeenTs opp - firstSeenTs opp))) (optPersistenceMs opts)
     \<or> js_ge (Fin (real (persistenceCount opp))) (optMinPersistenceCount opts)"

definition entryConsistent :: "string \<Rightarrow> OpportunityPersistence \<Rightarrow> bool" where
  "entryConsistent key p \<longleftrightarrow>
     firstSeenTs (data p) = bufFirstSeenTs p \<and> lastSeenTs (data p) = bufLastSeenTs p
     \<and> persistenceCount (data p) = bufPersistenceCount p
     \<and> keyOf (symbol (data p)) (action (data p)) = key"

definition bufferConsistent :: "(string \<rightharpoonup> OpportunityPersistence) \<Rightarrow> bool" where
  "bufferConsistent buf \<longleftrightarrow> (\<forall>key p. buf key = Some p \<longrightarrow> entryConsistent key p)"

text \<open>
  The invariant of the loop: the buffer is consistent, and every opportunity pushed so
  far meets a persistence criterion and belongs to a key seen in this poll.
\<close>

definition pollInv :: "DetectArbitrageOptions \<Rightarrow> PollState \<Rightarrow> bool" where
  "pollInv opts st \<longleftrightarrow>
     bufferConsistent (persistenceBuffer st)
     \<and> (\<forall>opp \<in> set (opportunities st).
          meetsPersistence opts opp \<and> keyOf (symbol opp) (action opp) \<in> seenKeys st)"

section \<open>Execution engine\<close>

text \<open>
  The part of the global state that \<open>executeArbitrageWithPartialFills\<close> writes: the
  audit log, the execution log and the portfolio. Writes to the state store are taken
  to succeed.
\<close>

datatype exec_status = Pending | Executing | Filled | Partial | Completed | Failed

record ExecutionRecord =
  recId :: string
  recSymbol :: string
  status :: exec_status
  recBuyPrice :: jsnum
  recBuyQty :: jsnum
  sellPrice :: "jsnum option"
  sellQty :: "jsnum option"
  profit :: "jsnum option"
  recPartialFill :: "bool option"

record EngineState =
  auditLog :: "AuditLogEntry list"
  executionLog :: "ExecutionRecord list"
  portfolio :: Portfolio







text \<open>
  The ask side that \<open>getIndianOrderBook\<close> generates around \<open>midPrice\<close>: level \<open>i\<close>
  has the price \<open>midPrice * (1 + spreadPercent * (i + 1))\<close> and the quantity
  \<open>0.1 + r * 5\<close>, where \<open>r\<close> is the value of \<open>Math.random()\<close> drawn for the level
  (one element of \<open>rands\<close> per level).
\<close>

definition indianOrderBookAsks ::
  "(real \<Rightarrow> real) \<Rightarrow> jsnum \<Rightarrow> real \<Rightarrow> real list \<Rightarrow> (jsnum \<times> jsnum) list" where
  "indianOrderBookAsks rnd midPrice spreadPercent rands =
     map (\<lambda>(i, r). (fl_mul rnd midPrice
                      (fl_add rnd (Fin 1) (fl_mul rnd (Fin spreadPercent) (Fin (real i + 1)))),
                    fl_add rnd (Fin 0.1) (fl_mul rnd (Fin r) (Fin 5))))
         (enumerate 0 rands)"



section \<open>Sample inputs\<close>

text \<open>
  The scenario used for the concrete instances: BTCUSDT quoted at 50000 and 50750 (a
  spread of 1.5 percent), seen on two polls.
\<close>

definition sampleOpportunity :: Opportunity where
  "sampleOpportunity =
    \<lparr>oppId = ''opp_BTCUSDT_1'', symbol = ''BTCUSDT'', spreadPct = Fin 1.5,
     action = ''buy-binance-sell-india'', estimatedGrossProfitPct = Fin 1.2,
     binancePrice = Fin 50000, indianPrice = Fin 50750,
     firstSeenTs = 1000, lastSeenTs = 3000, persistenceCount = 2\<rparr>"

definition sampleRisk :: RiskAssessmentResult where
  "sampleRisk =
    \<lparr>riskScore = Fin 40, slippagePct = Fin 0.1, volatilityPct = Fin 0.5,
     liquidityEstimate = \<lparr>fillableQty = Fin 1, expectedAvgPrice = Fin 50800\<rparr>\<rparr>"

definition sampleAllocation :: AllocationResult where
  "sampleAllocation = \<lparr>allocationPct = Fin 0.10, allocatedUSDT = Fin 5000\<rparr>"

definition defaultOptions :: DetectArbitrageOptions where
  "defaultOptions = \<lparr>minSpreadPct = None, persistenceMs = None, minPersistenceCount = None\<rparr>"

definition samplePrice :: DiscoveredPrice where
  "samplePrice = \<lparr>dpSymbol = ''BTCUSDT'', dpBinancePrice = Fin 50000, dpIndianPrice = Fin 50750\<rparr>"

definition smallSpreadPrice :: DiscoveredPrice where
  "smallSpreadPrice =
     \<lparr>dpSymbol = ''BTCUSDT'', dpBinancePrice = Fin 50000, dpIndianPrice = Fin 50200\<rparr>"

definition sampleKey :: string where
  "sampleKey = ''BTCUSDT_buy-binance-sell-india''"

text \<open>The buffer after a first poll at time 1000 that sees the sample price.\<close>

definition bufferAfterFirstPoll :: "string \<rightharpoonup> OpportunityPersistence" where
  "bufferAfterFirstPoll =
     snd (detectArbitrage defaultOptions 1000 (\<lambda>_. ''opp_BTCUSDT_1'') [samplePrice] Map.empty)"



text \<open>
  The default guardian settings and portfolio of the state store, a portfolio with 75
  percent of its value in positions, portfolios of value zero with either sign, and a
  stand-in for \<open>toDateString\<close> that tells the first day of the epoch from later days.
\<close>

definition defaultGuardianConfig :: GuardianConfig where
  "defaultGuardianConfig =
     \<lparr>maxTradePctOfPortfolio = Fin 0.15, dailyMaxTrades = Fin 30,
      globalMaxExposurePct = Fin 0.5, vetoExchangeOutage = True, vetoHighVolatility = True\<rparr>"

definition defaultPortfolio :: Portfolio where
  "defaultPortfolio = \<lparr>cash = Fin 100000, totalValue = Fin 100000\<rparr>"

definition exposedPortfolio :: Portfolio where
  "exposedPortfolio = \<lparr>cash = Fin 25000, totalValue = Fin 100000\<rparr>"

definition zeroPortfolio :: Portfolio where
  "zeroPortfolio = \<lparr>cash = Fin 0, totalValue = Fin 0\<rparr>"

definition negZeroPortfolio :: Portfolio where
  "negZeroPortfolio = \<lparr>cash = Fin 0, totalValue = NegZero\<rparr>"

definition sampleDateString :: "int \<Rightarrow> string" where
  "sampleDateString t = (if t div 86400000 = 0 then ''Thu Jan 01 1970'' else ''later'')"

text \<open>
  An audit log read at time 5000: one execution completed today, an entry of today with
  another action, an execution completed two days later, and a completed execution
  whose time stamp is 0 (falsy, though it falls on the first day).
\<close>

definition sampleAuditLog :: "AuditLogEntry list" where
  "sampleAuditLog =
     [\<lparr>timestamp = 4000, logAction = ''execution_completed''\<rparr>,
      \<lparr>timestamp = 4500, logAction = ''buy_order_placed''\<rparr>,
      \<lparr>timestamp = 172800000, logAction = ''execution_completed''\<rparr>,
      \<lparr>timestamp = 0, logAction = ''execution_completed''\<rparr>]"

section \<open>Facts about the number operations\<close>

lemma js_gt_NaN [simp]: "\<not> js_gt NaN b" "\<not> js_gt a NaN"
  by (cases b; simp add: js_gt_def) (cases a; simp add: js_gt_def)

lemma js_lt_PosInf [simp]: "\<not> js_lt PosInf b"
  by (cases b) simp_all

lemma js_sub_Fin [simp]: "js_sub (Fin x) (Fin y) = Fin (x - y)"
  by (simp add: js_sub_def)

lemma js_min_Fin [simp]: "js_min (Fin a) (Fin b) = Fin (min a b)"
  by (simp add: js_min_def min_def)

lemma js_max_Fin [simp]: "js_max (Fin a) (Fin b) = Fin (max a b)"
  by (simp add: js_max_def max_def)

lemma fl_simps [simp]:
  "fl rnd NaN = NaN"
  "fl rnd NegInf = NegInf"
  "fl rnd PosInf = PosInf"
  "fl rnd NegZero = NegZero"
  by (simp_all add: fl_def)

lemma fl_Fin:
  "fl rnd (Fin x) =
     (if maxDouble < rnd x then PosInf
      else if rnd x < - maxDouble then NegInf
      else if rnd x = 0 \<and> x < 0 then NegZero
      else Fin (rnd x))"
  by (simp add: fl_def)

lemma maxDouble_ge: "10 ^ 9 \<le> maxDouble"
  by (simp add: maxDouble_def)

lemma maxDouble_pos: "0 < maxDouble" "1 \<le> maxDouble"
  using maxDouble_ge by simp_all

lemma fl_id_small [simp]: "\<bar>x\<bar> \<le> 10 ^ 9 \<Longrightarrow> fl (\<lambda>x. x) (Fin x) = Fin x"
  using maxDouble_ge by (auto simp: fl_Fin)

lemma fl_Fin_between:
  "- maxDouble \<le> rnd x \<Longrightarrow> rnd x \<le> maxDouble \<Longrightarrow> 0 \<le> x \<Longrightarrow> fl rnd (Fin x) = Fin (rnd x)"
  by (simp add: fl_Fin)



lemma faithfulRounding_mono: "faithfulRounding rnd \<Longrightarrow> x \<le> y \<Longrightarrow> rnd x \<le> rnd y"
  by (simp add: faithfulRounding_def)

lemma faithfulRounding_nat:
  "faithfulRounding rnd \<Longrightarrow> n \<le> 2 ^ 53 \<Longrightarrow> rnd (real n) = real n"
  by (simp add: faithfulRounding_def)

lemma faithfulRounding_zero: "faithfulRounding rnd \<Longrightarrow> rnd 0 = 0"
  using faithfulRounding_nat [of rnd 0] by simp

lemma faithfulRounding_one: "faithfulRounding rnd \<Longrightarrow> rnd 1 = 1"
  using faithfulRounding_nat [of rnd 1] by simp




lemma faithfulRounding_nonneg: "faithfulRounding rnd \<Longrightarrow> 0 \<le> x \<Longrightarrow> 0 \<le> rnd x"
  using faithfulRounding_mono [of rnd 0 x] by (simp add: faithfulRounding_zero)

text \<open>
  A non-negative exact result below a natural number in the range of the format rounds
  to a number, not to an infinity or to the negative zero.
\<close>

lemma fl_nonneg_bounded:
  assumes "faithfulRounding rnd" and "0 \<le> x" and "x \<le> real n" and "n \<le> 10 ^ 9"
  shows "fl rnd (Fin x) = Fin (rnd x) \<and> 0 \<le> rnd x \<and> rnd x \<le> real n"
proof -
  have n: "n \<le> 2 ^ 53" using assms(4) by simp
  have "rnd x \<le> rnd (real n)"
    using assms(1,3) by (rule faithfulRounding_mono)
  then have le: "rnd x \<le> real n"
    using faithfulRounding_nat [OF assms(1) n] by simp
  have ge: "0 \<le> rnd x"
    using assms(1,2) by (rule faithfulRounding_nonneg)
  have "real n \<le> 10 ^ 9" using assms(4) by (simp flip: of_nat_le_iff)
  then have "rnd x \<le> maxDouble" using le maxDouble_ge by linarith
  then show ?thesis
    using le ge assms(2) maxDouble_pos(1) by (simp add: fl_Fin)
qed

section \<open>Guardian: order of the checks\<close>

text \<open>
  Claim C3. \<open>guardianCheck\<close> evaluates its checks in the order trade size, daily trade
  count, exposure, volatility, risk score, and the first hard limit that fails decides
  the whole result. With \<open>tradePct = allocatedUSDT / totalValue\<close>, with \<open>todayCount\<close> the
  number of audit entries that have a truthy time stamp, fall on the calendar day of the
  call and have the action \<open>execution_completed\<close>, and with
  \<open>exposure = (totalValue - cash) / totalValue\<close>:
  \<^item> if \<open>tradePct > maxTradePctOfPortfolio\<close> the result is the trade-size veto, whose
    reason carries the percentage \<open>tradePct * 100\<close>, without warnings;
  \<^item> otherwise, if \<open>todayCount >= dailyMaxTrades\<close> it is the daily-limit veto, without
    warnings;
  \<^item> otherwise the warnings are the single exposure warning (carrying
    \<open>exposure * 100\<close>) when \<open>exposure > globalMaxExposurePct\<close> and empty when not; the
    result is the volatility veto when that veto is enabled and \<open>volatilityPct > 2.0\<close>,
    else the risk veto when \<open>riskScore > 75\<close>, else it passes without a reason.
  The result passes exactly when none of the four hard limits fails, and whatever the
  cash position and \<open>globalMaxExposurePct\<close> are, \<open>pass\<close> and \<open>reason\<close> are the same:
  exceeding the exposure limit never causes a veto.
\<close>

theorem guardianCheck_order:
  "(let r = guardianCheck rnd tds now p lg risk alloc cfg;
        tradePct = fl_div rnd (allocatedUSDT alloc) (totalValue p);
        todayCount = length (filter (\<lambda>e. timestamp e \<noteq> 0 \<and> tds (timestamp e) = tds now
                                         \<and> logAction e = ''execution_completed'') lg);
        exposure = fl_div rnd (fl_sub rnd (totalValue p) (cash p)) (totalValue p);
        ws = (if js_gt exposure (globalMaxExposurePct cfg)
              then [HighExposure (fl_mul rnd exposure (Fin 100))] else []);
        c1 = js_gt tradePct (maxTradePctOfPortfolio cfg);
        c2 = js_ge (Fin (real todayCount)) (dailyMaxTrades cfg);
        c4 = (vetoHighVolatility cfg \<and> js_gt (volatilityPct risk) (Fin 2));
        c5 = js_gt (riskScore risk) (Fin 75)
    in (c1 \<longrightarrow> r = \<lparr>pass = False,
                      reason = Some (TradeSizeExceedsLimit (fl_mul rnd tradePct (Fin 100))
                                 (fl_mul rnd (maxTradePctOfPortfolio cfg) (Fin 100))),
                      warnings = []\<rparr>)
     \<and> (\<not> c1 \<and> c2 \<longrightarrow> r = \<lparr>pass = False,
                      reason = Some (DailyTradeLimitReached (dailyMaxTrades cfg)),
                      warnings = []\<rparr>)
     \<and> (\<not> c1 \<and> \<not> c2 \<and> c4 \<longrightarrow>
           r = \<lparr>pass = False, reason = Some (HighVolatilityExceeds (volatilityPct risk)),
                warnings = ws\<rparr>)
     \<and> (\<not> c1 \<and> \<not> c2 \<and> \<not> c4 \<and> c5 \<longrightarrow>
           r = \<lparr>pass = False, reason = Some (RiskScoreTooHigh (riskScore risk)),
                warnings = ws\<rparr>)
     \<and> (\<not> c1 \<and> \<not> c2 \<and> \<not> c4 \<and> \<not> c5 \<longrightarrow>
           r = \<lparr>pass = True, reason = None, warnings = ws\<rparr>)
     \<and> (pass r \<longleftrightarrow> \<not> (c1 \<or> c2 \<or> c4 \<or> c5))
     \<and> (\<forall>g c. let r' = guardianCheck rnd tds now (p\<lparr>cash := c\<rparr>) lg risk alloc
                               (cfg\<lparr>globalMaxExposurePct := g\<rparr>)
              in pass r' = pass r \<and> reason r' = reason r
                 \<and> (warnings r' = [] \<or> (\<exists>e. warnings r' = [HighExposure e]))))"
  by (simp add: guardianCheck_def todayLogs_def Let_def)

text \<open>
  Seven instances at time 5000 of the first day. A trade of 25 percent of the portfolio
  against the limit of 15 percent. The sample audit log, which has one completed
  execution of today among its four entries, with \<open>dailyMaxTrades = 1\<close> (veto) and with
  \<open>dailyMaxTrades = 2\<close> (pass). A volatility of 2.5 percent and a risk score of 80, each
  with an exposure of 75 percent and with none. A trade that passes with an exposure of
  75 percent, which only leaves the warning.
\<close>

theorem guardianCheck_order_witness:
  "guardianCheck (\<lambda>x. x) sampleDateString 5000 defaultPortfolio [] sampleRisk
      \<lparr>allocationPct = Fin 0.25, allocatedUSDT = Fin 25000\<rparr> defaultGuardianConfig
     = \<lparr>pass = False, reason = Some (TradeSizeExceedsLimit (Fin 25) (Fin 15)), warnings = []\<rparr>
   \<and> guardianCheck (\<lambda>x. x) sampleDateString 5000 defaultPortfolio sampleAuditLog sampleRisk
        sampleAllocation (defaultGuardianConfig\<lparr>dailyMaxTrades := Fin 1\<rparr>)
     = \<lparr>pass = False, reason = Some (DailyTradeLimitReached (Fin 1)), warnings = []\<rparr>
   \<and> guardianCheck (\<lambda>x. x) sampleDateString 5000 defaultPortfolio sampleAuditLog sampleRisk
        sampleAllocation (defaultGuardianConfig\<lparr>dailyMaxTrades := Fin 2\<rparr>)
     = \<lparr>pass = True, reason = None, warnings = []\<rparr>
   \<and> guardianCheck (\<lambda>x. x) sampleDateString 5000 exposedPortfolio sampleAuditLog
        (sampleRisk\<lparr>volatilityPct := Fin 2.5\<rparr>) sampleAllocation defaultGuardianConfig
     = \<lparr>pass = False, reason = Some (HighVolatilityExceeds (Fin 2.5)),
        warnings = [HighExposure (Fin 75)]\<rparr>
   \<and> guardianCheck (\<lambda>x. x) sampleDateString 5000 defaultPortfolio sampleAuditLog
        (sampleRisk\<lparr>volatilityPct := Fin 2.5, riskScore := Fin 80\<rparr>) sampleAllocation
        (defaultGuardianConfig\<lparr>vetoHighVolatility := False\<rparr>)
     = \<lparr>pass = False, reason = Some (RiskScoreTooHigh (Fin 80)), warnings = []\<rparr>
   \<and> guardianCheck (\<lambda>x. x) sampleDateString 5000 exposedPortfolio sampleAuditLog
        (sampleRisk\<lparr>riskScore := Fin 80\<rparr>) sampleAllocation defaultGuardianConfig
     = \<lparr>pass = False, reason = Some (RiskScoreTooHigh (Fin 80)),
        warnings = [HighExposure (Fin 75)]\<rparr>
   \<and> guardianCheck (\<lambda>x. x) sampleDateString 5000 exposedPortfolio sampleAuditLog sampleRisk
        sampleAllocation defaultGuardianConfig
     = \<lparr>pass = True, reason = None, warnings = [HighExposure (Fin 75)]\<rparr>"
proof -
  note ev = Let_def js_gt_def js_ge_def js_le_def fl_div_def fl_sub_def fl_mul_def
    sampleDateString_def sampleAuditLog_def defaultPortfolio_def exposedPortfolio_def
    sampleRisk_def sampleAllocation_def defaultGuardianConfig_def
  have "guardianCheck (\<lambda>x. x) sampleDateString 5000 defaultPortfolio [] sampleRisk
      \<lparr>allocationPct = Fin 0.25, allocatedUSDT = Fin 25000\<rparr> defaultGuardianConfig
     = \<lparr>pass = False, reason = Some (TradeSizeExceedsLimit (Fin 25) (Fin 15)), warnings = []\<rparr>"
    using guardianCheck_order [of "\<lambda>x. x" sampleDateString 5000 defaultPortfolio "[]" sampleRisk
        "\<lparr>allocationPct = Fin 0.25, allocatedUSDT = Fin 25000\<rparr>" defaultGuardianConfig]
    by (simp add: ev)
  moreover have "guardianCheck (\<lambda>x. x) sampleDateString 5000 defaultPortfolio sampleAuditLog
        sampleRisk sampleAllocation (defaultGuardianConfig\<lparr>dailyMaxTrades := Fin 1\<rparr>)
     = \<lparr>pass = False, reason = Some (DailyTradeLimitReached (Fin 1)), warnings = []\<rparr>"
    using guardianCheck_order [of "\<lambda>x. x" sampleDateString 5000 defaultPortfolio sampleAuditLog
        sampleRisk sampleAllocation "defaultGuardianConfig\<lparr>dailyMaxTrades := Fin 1\<rparr>"]
    by (simp add: ev)
  moreover have "guardianCheck (\<lambda>x. x) sampleDateString 5000 defaultPortfolio sampleAuditLog
        sampleRisk sampleAllocation (defaultGuardianConfig\<lparr>dailyMaxTrades := Fin 2\<rparr>)
     = \<lparr>pass = True, reason = None, warnings = []\<rparr>"
    using guardianCheck_order [of "\<lambda>x. x" sampleDateString 5000 defaultPortfolio sampleAuditLog
        sampleRisk sampleAllocation "defaultGuardianConfig\<lparr>dailyMaxTrades := Fin 2\<rparr>"]
    by (simp add: ev)
  moreover have "guardianCheck (\<lambda>x. x) sampleDateString 5000 exposedPortfolio sampleAuditLog
        (sampleRisk\<lparr>volatilityPct := Fin 2.5\<rparr>) sampleAllocation defaultGuardianConfig
     = \<lparr>pass = False, reason = Some (HighVolatilityExceeds (Fin 2.5)),
        warnings = [HighExposure (Fin 75)]\<rparr>"
    using guardianCheck_order [of "\<lambda>x. x" sampleDateString 5000 exposedPortfolio sampleAuditLog
        "sampleRisk\<lparr>volatilityPct := Fin 2.5\<rparr>" sampleAllocation defaultGuardianConfig]
    by (simp add: ev)
  moreover have "guardianCheck (\<lambda>x. x) sampleDateString 5000 defaultPortfolio sampleAuditLog
        (sampleRisk\<lparr>volatilityPct := Fin 2.5, riskScore := Fin 80\<rparr>) sampleAllocation
        (defaultGuardianConfig\<lparr>vetoHighVolatility := False\<rparr>)
     = \<lparr>pass = False, reason = Some (RiskScoreTooHigh (Fin 80)), warnings = []\<rparr>"
    using guardianCheck_order [of "\<lambda>x. x" sampleDateString 5000 defaultPortfolio sampleAuditLog
        "sampleRisk\<lparr>volatilityPct := Fin 2.5, riskScore := Fin 80\<rparr>" sampleAllocation
        "defaultGuardianConfig\<lparr>vetoHighVolatility := False\<rparr>"]
    by (simp add: ev)
  moreover have "guardianCheck (\<lambda>x. x) sampleDateString 5000 exposedPortfolio sampleAuditLog
        (sampleRisk\<lparr>riskScore := Fin 80\<rparr>) sampleAllocation defaultGuardianConfig
     = \<lparr>pass = False, reason = Some (RiskScoreTooHigh (Fin 80)),
        warnings = [HighExposure (Fin 75)]\<rparr>"
    using guardianCheck_order [of "\<lambda>x. x" sampleDateString 5000 exposedPortfolio sampleAuditLog
        "sampleRisk\<lparr>riskScore := Fin 80\<rparr>" sampleAllocation defaultGuardianConfig]
    by (simp add: ev)
  moreover have "guardianCheck (\<lambda>x. x) sampleDateString 5000 exposedPortfolio sampleAuditLog
        sampleRisk sampleAllocation defaultGuardianConfig
     = \<lparr>pass = True, reason = None, warnings = [HighExposure (Fin 75)]\<rparr>"
    using guardianCheck_order [of "\<lambda>x. x" sampleDateString 5000 exposedPortfolio sampleAuditLog
        sampleRisk sampleAllocation defaultGuardianConfig]
    by (simp add: ev)
  ultimately show ?thesis by simp
qed

section \<open>Guardian: a portfolio of value zero\<close>

text \<open>
  Claim C10, as stated: for a portfolio with \<open>totalValue = 0\<close> and a positive
  \<open>allocatedUSDT\<close> the ratio is infinite and the trade-size check vetoes. The number
  type has two zeros, and both satisfy \<open>totalValue === 0\<close>. For the negative one the
  ratio \<open>10 / -0\<close> is \<open>-Infinity\<close>, which exceeds no limit: with the default settings
  and the sample risk the trade of 10 passes the guardian, where the claim has a veto.
\<close>

theorem guardianCheck_negative_zero_counterexample:
  "totalValue negZeroPortfolio = js_neg (Fin 0)
   \<and> \<not> js_lt (totalValue negZeroPortfolio) (Fin 0) \<and> \<not> js_gt (totalValue negZeroPortfolio) (Fin 0)
   \<and> js_gt (Fin 10) (Fin 0)
   \<and> fl_div (\<lambda>x. x) (Fin 10) (totalValue negZeroPortfolio) = NegInf
   \<and> guardianCheck (\<lambda>x. x) sampleDateString 5000 negZeroPortfolio [] sampleRisk
        \<lparr>allocationPct = Fin 0.1, allocatedUSDT = Fin 10\<rparr> defaultGuardianConfig
      = \<lparr>pass = True, reason = None, warnings = []\<rparr>"
  by (simp add: guardianCheck_def Let_def negZeroPortfolio_def sampleRisk_def
      defaultGuardianConfig_def todayLogs_def js_gt_def js_ge_def js_le_def fl_div_def
      fl_sub_def fl_mul_def js_sub_def)

text \<open>
  Claim C10, amended. The division of the trade-size check is unguarded, and
  \<open>guardianCheck\<close> returns a result for every portfolio (the function has no failing
  branch). For a portfolio whose \<open>totalValue\<close> is the positive zero, a positive
  \<open>allocatedUSDT\<close> gives the ratio \<open>Infinity\<close>, which exceeds every limit below
  infinity, so the trade-size check vetoes. For a portfolio whose \<open>totalValue\<close> is the
  negative zero, a positive \<open>allocatedUSDT\<close> gives the ratio \<open>-Infinity\<close>, and the
  trade-size check passes. For either zero, an \<open>allocatedUSDT\<close> of zero gives the
  ratio \<open>NaN\<close>, the comparison with \<open>maxTradePctOfPortfolio\<close> is false, and the
  trade-size check passes. Where the trade-size check passes, the reason is never the
  trade-size one and the result passes exactly when the daily-count, volatility and
  risk-score checks pass.
\<close>

theorem guardianCheck_zero_totalValue:
  "(totalValue p = Fin 0 \<and> js_gt (allocatedUSDT alloc) (Fin 0) \<longrightarrow>
      fl_div rnd (allocatedUSDT alloc) (totalValue p) = PosInf
      \<and> (js_lt (maxTradePctOfPortfolio cfg) PosInf \<longrightarrow>
            guardianCheck rnd tds now p lg risk alloc cfg
            = \<lparr>pass = False,
               reason = Some (TradeSizeExceedsLimit PosInf
                          (fl_mul rnd (maxTradePctOfPortfolio cfg) (Fin 100))),
               warnings = []\<rparr>))
   \<and> (totalValue p = NegZero \<and> js_gt (allocatedUSDT alloc) (Fin 0) \<longrightarrow>
        fl_div rnd (allocatedUSDT alloc) (totalValue p) = NegInf)
   \<and> ((totalValue p = Fin 0 \<or> totalValue p = NegZero)
        \<and> (allocatedUSDT alloc = Fin 0 \<or> allocatedUSDT alloc = NegZero) \<longrightarrow>
        fl_div rnd (allocatedUSDT alloc) (totalValue p) = NaN)
   \<and> (totalValue p = NegZero \<and> js_gt (allocatedUSDT alloc) (Fin 0)
        \<or> (totalValue p = Fin 0 \<or> totalValue p = NegZero)
           \<and> (allocatedUSDT alloc = Fin 0 \<or> allocatedUSDT alloc = NegZero) \<longrightarrow>
      \<not> js_gt (fl_div rnd (allocatedUSDT alloc) (totalValue p)) (maxTradePctOfPortfolio cfg)
      \<and> (\<forall>x y. reason (guardianCheck rnd tds now p lg risk alloc cfg)
                  \<noteq> Some (TradeSizeExceedsLimit x y))
      \<and> (pass (guardianCheck rnd tds now p lg risk alloc cfg) \<longleftrightarrow>
           \<not> (js_ge (Fin (real (length (todayLogs tds now lg)))) (dailyMaxTrades cfg)
              \<or> (vetoHighVolatility cfg \<and> js_gt (volatilityPct risk) (Fin 2))
              \<or> js_gt (riskScore risk) (Fin 75))))"
proof -
  let ?ratio = "fl_div rnd (allocatedUSDT alloc) (totalValue p)"
  let ?r = "guardianCheck rnd tds now p lg risk alloc cfg"
  have A: "?ratio = PosInf"
    if "totalValue p = Fin 0" "js_gt (allocatedUSDT alloc) (Fin 0)"
    using that by (cases "allocatedUSDT alloc") (simp_all add: fl_div_def js_gt_def)
  have A': "?r = \<lparr>pass = False,
               reason = Some (TradeSizeExceedsLimit PosInf
                          (fl_mul rnd (maxTradePctOfPortfolio cfg) (Fin 100))),
               warnings = []\<rparr>"
    if "?ratio = PosInf" "js_lt (maxTradePctOfPortfolio cfg) PosInf"
    using that by (simp add: guardianCheck_def Let_def js_gt_def fl_mul_def [of rnd PosInf])
  have B: "?ratio = NegInf"
    if "totalValue p = NegZero" "js_gt (allocatedUSDT alloc) (Fin 0)"
    using that by (cases "allocatedUSDT alloc") (simp_all add: fl_div_def js_gt_def)
  have C: "?ratio = NaN"
    if "totalValue p = Fin 0 \<or> totalValue p = NegZero"
       "allocatedUSDT alloc = Fin 0 \<or> allocatedUSDT alloc = NegZero"
    using that by (auto simp: fl_div_def)
  have D: "(\<forall>x y. reason ?r \<noteq> Some (TradeSizeExceedsLimit x y))
      \<and> (pass ?r \<longleftrightarrow>
           \<not> (js_ge (Fin (real (length (todayLogs tds now lg)))) (dailyMaxTrades cfg)
              \<or> (vetoHighVolatility cfg \<and> js_gt (volatilityPct risk) (Fin 2))
              \<or> js_gt (riskScore risk) (Fin 75)))"
    if "\<not> js_gt ?ratio (maxTradePctOfPortfolio cfg)"
    using that by (simp add: guardianCheck_def Let_def)
  have N: "\<not> js_gt NegInf (maxTradePctOfPortfolio cfg)"
    by (cases "maxTradePctOfPortfolio cfg") (simp_all add: js_gt_def)
  have E: "\<not> js_gt ?ratio (maxTradePctOfPortfolio cfg)"
    if "totalValue p = NegZero \<and> js_gt (allocatedUSDT alloc) (Fin 0)
        \<or> (totalValue p = Fin 0 \<or> totalValue p = NegZero)
           \<and> (allocatedUSDT alloc = Fin 0 \<or> allocatedUSDT alloc = NegZero)"
    using that B C N by auto
  show ?thesis
    using A A' B C D E by blast
qed

text \<open>
  At the positive zero the trade of 10 is vetoed with the ratio \<open>Infinity\<close>; at the
  negative zero a trade of 20 passes; a trade of zero passes at either zero.
\<close>

theorem guardianCheck_zero_totalValue_witness:
  "guardianCheck (\<lambda>x. x) sampleDateString 5000 zeroPortfolio [] sampleRisk
      \<lparr>allocationPct = Fin 0.1, allocatedUSDT = Fin 10\<rparr> defaultGuardianConfig
    = \<lparr>pass = False, reason = Some (TradeSizeExceedsLimit PosInf (Fin 15)), warnings = []\<rparr>
   \<and> fl_div (\<lambda>x. x) (Fin 20) (totalValue negZeroPortfolio) = NegInf
   \<and> pass (guardianCheck (\<lambda>x. x) sampleDateString 5000 negZeroPortfolio [] sampleRisk
      \<lparr>allocationPct = Fin 0.1, allocatedUSDT = Fin 20\<rparr> defaultGuardianConfig)
   \<and> fl_div (\<lambda>x. x) (Fin 0) (totalValue zeroPortfolio) = NaN
   \<and> pass (guardianCheck (\<lambda>x. x) sampleDateString 5000 zeroPortfolio [] sampleRisk
      \<lparr>allocationPct = Fin 0.1, allocatedUSDT = Fin 0\<rparr> defaultGuardianConfig)
   \<and> pass (guardianCheck (\<lambda>x. x) sampleDateString 5000 negZeroPortfolio [] sampleRisk
      \<lparr>allocationPct = Fin 0.1, allocatedUSDT = Fin 0\<rparr> defaultGuardianConfig)"
proof -
  note ev = js_gt_def js_ge_def js_le_def todayLogs_def fl_mul_def zeroPortfolio_def
    negZeroPortfolio_def sampleRisk_def defaultGuardianConfig_def
  note t = guardianCheck_zero_totalValue [where rnd = "\<lambda>x. x" and tds = sampleDateString
      and now = 5000 and lg = "[]" and risk = sampleRisk and cfg = defaultGuardianConfig]
  have "guardianCheck (\<lambda>x. x) sampleDateString 5000 zeroPortfolio [] sampleRisk
      \<lparr>allocationPct = Fin 0.1, allocatedUSDT = Fin 10\<rparr> defaultGuardianConfig
    = \<lparr>pass = False, reason = Some (TradeSizeExceedsLimit PosInf (Fin 15)), warnings = []\<rparr>"
    using t [where p = zeroPortfolio and alloc = "\<lparr>allocationPct = Fin 0.1, allocatedUSDT = Fin 10\<rparr>"]
    by (simp add: ev)
  moreover have "fl_div (\<lambda>x. x) (Fin 20) (totalValue negZeroPortfolio) = NegInf
   \<and> pass (guardianCheck (\<lambda>x. x) sampleDateString 5000 negZeroPortfolio [] sampleRisk
      \<lparr>allocationPct = Fin 0.1, allocatedUSDT = Fin 20\<rparr> defaultGuardianConfig)"
    using t [where p = negZeroPortfolio and alloc = "\<lparr>allocationPct = Fin 0.1, allocatedUSDT = Fin 20\<rparr>"]
    by (simp add: ev)
  moreover have "fl_div (\<lambda>x. x) (Fin 0) (totalValue zeroPortfolio) = NaN
   \<and> pass (guardianCheck (\<lambda>x. x) sampleDateString 5000 zeroPortfolio [] sampleRisk
      \<lparr>allocationPct = Fin 0.1, allocatedUSDT = Fin 0\<rparr> defaultGuardianConfig)"
    using t [where p = zeroPortfolio and alloc = "\<lparr>allocationPct = Fin 0.1, allocatedUSDT = Fin 0\<rparr>"]
    by (simp add: ev)
  moreover have "pass (guardianCheck (\<lambda>x. x) sampleDateString 5000 negZeroPortfolio [] sampleRisk
      \<lparr>allocationPct = Fin 0.1, allocatedUSDT = Fin 0\<rparr> defaultGuardianConfig)"
    using t [where p = negZeroPortfolio and alloc = "\<lparr>allocationPct = Fin 0.1, allocatedUSDT = Fin 0\<rparr>"]
    by (simp add: ev)
  ultimately show ?thesis by simp
qed

section \<open>Debate: median consensus\<close>



lemma clamp01_orZero_Fin:
  "\<exists>v. js_max (Fin 0) (js_min (Fin 1) (orZero s)) = Fin v \<and> 0 \<le> v \<and> v \<le> 1"
proof (cases s)
  case None
  then show ?thesis by (simp add: orZero_def)
next
  case (Some n)
  then show ?thesis
    by (cases n) (auto simp: orZero_def js_truthy_def js_max_def js_min_def)
qed

lemma replied_scores_finite:
  assumes "res = debateWithMedianConsensus rnd (Replied b be n) o' r a thr"
  shows "\<exists>x y z. bullish res = Fin x \<and> bearish res = Fin y \<and> neutral res = Fin z
           \<and> 0 \<le> x \<and> x \<le> 1 \<and> 0 \<le> y \<and> y \<le> 1 \<and> 0 \<le> z \<and> z \<le> 1"
  using clamp01_orZero_Fin [of b] clamp01_orZero_Fin [of be] clamp01_orZero_Fin [of n]
  by (auto simp: assms debateWithMedianConsensus_def Let_def)








section \<open>Debate: the fallback\<close>

lemma js_mul_commute: "js_mul a b = js_mul b a"
  by (cases a; cases b) (auto simp: mult.commute)

lemma fl_mul_commute: "fl_mul rnd a b = fl_mul rnd b a"
  by (simp add: fl_mul_def js_mul_commute [of a b])

text \<open>
  Claim C9. When no provider client is available, or the provider call (or the parsing
  of its reply) fails, the result of \<open>debateWithMedianConsensus\<close> is
  \<open>fallbackDebateResult\<close>, whose scores depend on the spread and the risk score only:
  with \<open>spreadScore = min(1, spreadPct / 3)\<close> and \<open>riskPenalty = riskScore / 100\<close>,
  bullish is \<open>clamp(spreadScore - 0.3 * riskPenalty)\<close>, bearish is \<open>clamp(riskPenalty)\<close>
  and neutral is 0.5, where \<open>clamp\<close> restricts to \<open>[0, 1]\<close>.
\<close>

theorem debate_fallback_when_unavailable:
  assumes "prov = NoClient \<or> prov = CallFails"
  shows "(let res = debateWithMedianConsensus rnd prov o' r a thr;
              spreadScore = js_min (Fin 1) (fl_div rnd (spreadPct o') (Fin 3));
              riskPenalty = fl_div rnd (riskScore r) (Fin 100)
          in res = fallbackDebateResult rnd o' r a (case thr of None \<Rightarrow> Fin 0.6 | Some t \<Rightarrow> t)
             \<and> bullish res = clamp01 (fl_sub rnd spreadScore (fl_mul rnd (Fin 0.3) riskPenalty))
             \<and> bearish res = clamp01 riskPenalty
             \<and> neutral res = Fin 0.5)"
  using assms
  by (auto simp: debateWithMedianConsensus_def fallbackDebateResult_def Let_def clamp01_def
      fl_mul_commute [of rnd "Fin (3 / 10)"])

theorem debate_fallback_when_unavailable_witness:
  "debateWithMedianConsensus (\<lambda>x. x) CallFails sampleOpportunity sampleRisk sampleAllocation None
     = \<lparr>bullish = Fin 0.38, bearish = Fin 0.4, neutral = Fin 0.5,
        finalDecisionScore = Fin 0.5, decision = Wait\<rparr>"
proof -
  have "debateWithMedianConsensus (\<lambda>x. x) CallFails sampleOpportunity sampleRisk
          sampleAllocation None
          = fallbackDebateResult (\<lambda>x. x) sampleOpportunity sampleRisk sampleAllocation (Fin 0.6)"
    using debate_fallback_when_unavailable [where prov = CallFails and rnd = "\<lambda>x. x"
        and o' = sampleOpportunity and r = sampleRisk and a = sampleAllocation and thr = None]
    by (simp add: Let_def)
  then show ?thesis
    by (simp add: fallbackDebateResult_def Let_def fl_sub_def fl_mul_def fl_div_def js_gt_def
        js_ge_def js_le_def sampleOpportunity_def sampleRisk_def jsSort_def)
qed

section \<open>Capital allocation: limits\<close>

lemma js_min_le_left: "a \<noteq> NaN \<Longrightarrow> b \<noteq> NaN \<Longrightarrow> js_le (js_min a b) a"
  by (cases a; cases b) (auto simp: js_min_def js_le_def)

lemma js_min_le_right: "a \<noteq> NaN \<Longrightarrow> b \<noteq> NaN \<Longrightarrow> js_le (js_min a b) b"
  by (cases a; cases b) (auto simp: js_min_def js_le_def)

lemma js_le_trans: "js_le a b \<Longrightarrow> js_le b c \<Longrightarrow> js_le a c"
  by (cases a; cases b; cases c) (auto simp: js_le_def)

lemma allocation_pct_cases:
  "\<exists>p. allocationPct (allocateCapitalForOpportunity opp risk pf) = Fin p \<and> 0 < p \<and> p \<le> 1"
proof -
  let ?pct = "allocationPct (allocateCapitalForOpportunity opp risk pf)"
  have "?pct = Fin 0.02 \<or> ?pct = Fin 0.05 \<or> ?pct = Fin 0.10 \<or> ?pct = Fin 0.15"
    by (simp add: allocateCapitalForOpportunity_def Let_def)
  then show ?thesis
  proof (elim disjE)
    assume "?pct = Fin 0.02"
    then show ?thesis by (intro exI [of _ "0.02"]) simp
  next
    assume "?pct = Fin 0.05"
    then show ?thesis by (intro exI [of _ "0.05"]) simp
  next
    assume "?pct = Fin 0.10"
    then show ?thesis by (intro exI [of _ "0.10"]) simp
  next
    assume "?pct = Fin 0.15"
    then show ?thesis by (intro exI [of _ "0.15"]) simp
  qed
qed

lemma scaled_balance_defined:
  assumes "bal \<noteq> NaN" and "0 < p"
  shows "js_mul bal (Fin p) \<noteq> NaN"
  using assms by (cases bal) auto

lemma scaled_balance_le:
  assumes "js_ge bal (Fin 0)" and "0 < p" and "p \<le> 1"
  shows "js_le (js_mul bal (Fin p)) bal"
proof (cases bal)
  case (Fin x)
  with assms(1) have "0 \<le> x" by (simp add: js_ge_def js_le_def)
  then have "x * p \<le> x" using assms(3) by (rule mult_left_le [rotated])
  then show ?thesis using Fin \<open>0 \<le> x\<close> assms(2) by (auto simp: js_le_def not_less)
next
  case PosInf
  then show ?thesis using assms(2) by (simp add: js_le_def)
next
  case NegZero
  then show ?thesis using assms(2) by (simp add: js_le_def)
qed (use assms(1) in \<open>simp_all add: js_ge_def js_le_def\<close>)

text \<open>
  What the allocator guarantees. The allocation is the smaller of the scaled balance and
  the cap, so it never exceeds \<open>maxTradeAmount\<close>, whatever the sign of the balance; it
  stays within the balance when the balance is not negative; and it is a zero for a
  balance of zero under a non-negative cap.
\<close>

lemma allocation_cap_bound:
  assumes "usdtBalance pf \<noteq> NaN" and "maxTradeAmount pf \<noteq> NaN"
  shows "js_le (allocatedUSDT (allocateCapitalForOpportunity opp risk pf)) (maxTradeAmount pf)"
proof -
  obtain p where pct: "allocationPct (allocateCapitalForOpportunity opp risk pf) = Fin p"
    and p: "0 < p" "p \<le> 1"
    using allocation_pct_cases [of opp risk pf] by auto
  have alloc: "allocatedUSDT (allocateCapitalForOpportunity opp risk pf)
                 = js_min (js_mul (usdtBalance pf) (Fin p)) (maxTradeAmount pf)"
    using pct by (simp add: allocateCapitalForOpportunity_def Let_def)
  show ?thesis
    using js_min_le_right [OF scaled_balance_defined [OF assms(1) p(1)] assms(2)]
    by (simp only: alloc)
qed

lemma allocation_balance_bound:
  assumes "js_ge (usdtBalance pf) (Fin 0)" and "maxTradeAmount pf \<noteq> NaN"
  shows "js_le (allocatedUSDT (allocateCapitalForOpportunity opp risk pf)) (usdtBalance pf)"
proof -
  obtain p where pct: "allocationPct (allocateCapitalForOpportunity opp risk pf) = Fin p"
    and p: "0 < p" "p \<le> 1"
    using allocation_pct_cases [of opp risk pf] by auto
  have alloc: "allocatedUSDT (allocateCapitalForOpportunity opp risk pf)
                 = js_min (js_mul (usdtBalance pf) (Fin p)) (maxTradeAmount pf)"
    using pct by (simp add: allocateCapitalForOpportunity_def Let_def)
  have nn: "usdtBalance pf \<noteq> NaN"
    using assms(1) by (auto simp: js_ge_def js_le_def)
  show ?thesis
    using js_le_trans [OF js_min_le_left [OF scaled_balance_defined [OF nn p(1)] assms(2)]
        scaled_balance_le [OF assms(1) p]]
    by (simp only: alloc)
qed

lemma allocation_zero_balance:
  assumes "usdtBalance pf = Fin 0" and "js_ge (maxTradeAmount pf) (Fin 0)"
  shows "allocatedUSDT (allocateCapitalForOpportunity opp risk pf) = Fin 0
       \<or> allocatedUSDT (allocateCapitalForOpportunity opp risk pf) = NegZero"
proof -
  obtain p where pct: "allocationPct (allocateCapitalForOpportunity opp risk pf) = Fin p"
    and p: "0 < p" "p \<le> 1"
    using allocation_pct_cases [of opp risk pf] by auto
  have alloc: "allocatedUSDT (allocateCapitalForOpportunity opp risk pf)
                 = js_min (js_mul (usdtBalance pf) (Fin p)) (maxTradeAmount pf)"
    using pct by (simp add: allocateCapitalForOpportunity_def Let_def)
  show ?thesis
    using assms p(1)
    by (cases "maxTradeAmount pf") (auto simp: alloc js_min_def js_ge_def js_le_def)
qed

text \<open>
  Claim C2: the allocation is at most \<open>usdtBalance\<close> and at most \<open>maxTradeAmount\<close>,
  and it is zero for a portfolio whose balance is zero or negative. The allocator has
  no check of the sign of the balance. On the portfolio with \<open>usdtBalance = -100\<close> and
  \<open>maxTradeAmount = 5000\<close>, with the sample risk (medium, 10 percent), it returns
  \<open>Math.min(-100 * 0.10, 5000) = -10\<close>: a negative allocation, which is above the
  balance and is not the zero allocation that the function returns on its failure
  path, and that the claim requires.
\<close>

theorem allocation_negative_balance:
  "allocateCapitalForOpportunity sampleOpportunity sampleRisk
      \<lparr>usdtBalance = Fin (- 100), maxTradeAmount = Fin 5000\<rparr>
     = \<lparr>allocationPct = Fin 0.10, allocatedUSDT = Fin (- 10)\<rparr>
   \<and> \<not> js_le (allocatedUSDT (allocateCapitalForOpportunity sampleOpportunity sampleRisk
      \<lparr>usdtBalance = Fin (- 100), maxTradeAmount = Fin 5000\<rparr>)) (Fin (- 100))
   \<and> js_le (allocatedUSDT (allocateCapitalForOpportunity sampleOpportunity sampleRisk
      \<lparr>usdtBalance = Fin (- 100), maxTradeAmount = Fin 5000\<rparr>)) (Fin 5000)
   \<and> allocatedUSDT (allocateCapitalForOpportunity sampleOpportunity sampleRisk
      \<lparr>usdtBalance = Fin (- 100), maxTradeAmount = Fin 5000\<rparr>) \<noteq> Fin 0"
  by (simp add: allocateCapitalForOpportunity_def Let_def sampleRisk_def js_gt_def js_ge_def
      js_le_def js_min_def)

section \<open>Risk assessment: monotone in volatility\<close>

lemma spreadAdjust_Fin: "\<exists>d. \<forall>x. spreadAdjust s (Fin x) = Fin (x + d)"
  by (auto simp: spreadAdjust_def js_sub_def)

lemma fillAdjust_Fin: "\<exists>d. \<forall>x. fillAdjust s (Fin x) = Fin (x + d)"
  by (auto simp: fillAdjust_def js_sub_def)

lemma slippageAdjust_Fin: "\<exists>d. \<forall>x. slippageAdjust s (Fin x) = Fin (x + d)"
  by (auto simp: slippageAdjust_def js_sub_def)

lemma volatilityAdjust_Fin:
  "volatilityAdjust v (Fin x)
     = Fin (x + (if js_gt v (Fin 1.0) then 25 else if js_gt v (Fin 0.5) then 15
                 else if js_lt v (Fin 0.1) then - 10 else 0))"
  by (simp add: volatilityAdjust_def js_sub_def)

lemma volatility_delta_mono:
  assumes "js_le v1 v2"
  shows "(if js_gt v1 (Fin 1.0) then 25 else if js_gt v1 (Fin 0.5) then 15
          else if js_lt v1 (Fin 0.1) then - 10 else (0::real))
       \<le> (if js_gt v2 (Fin 1.0) then 25 else if js_gt v2 (Fin 0.5) then 15
          else if js_lt v2 (Fin 0.1) then - 10 else 0)"
  using assms by (cases v1; cases v2) (auto simp: js_le_def js_gt_def)

lemma clamp_score_mono:
  "a \<le> b \<Longrightarrow> js_le (js_max (Fin 0) (js_min (Fin 100) (Fin a)))
                   (js_max (Fin 0) (js_min (Fin 100) (Fin b)))"
  by (auto simp: js_max_def js_min_def js_le_def)

text \<open>
  Claim C7. Two runs of \<open>assessRisk\<close> on the same opportunity, target quantity and
  liquidity answer, whose price histories give volatilities \<open>v1 \<le> v2\<close>: the
  \<open>riskScore\<close> of the second run is not below that of the first. The volatility step
  adds \<open>-10\<close>, \<open>0\<close>, \<open>15\<close> or \<open>25\<close> in increasing order of the volatility, the other
  steps add the same amounts in both runs, and the clamp to \<open>[0, 100]\<close> is monotone.
\<close>

theorem assessRisk_monotone_in_volatility:
  assumes "js_le (historyVolatility h1) (historyVolatility h2)"
  shows "js_le (riskScore (assessRisk opp tq h1 liq)) (riskScore (assessRisk opp tq h2 liq))"
proof (cases liq)
  case None
  then show ?thesis by (simp add: assessRisk_def js_le_def)
next
  case (Some e)
  define fr where "fr = js_div (fillableQty e) (case tq of None \<Rightarrow> Fin 1 | Some q \<Rightarrow> q)"
  define sl where "sl = (if js_gt (fillableQty e) (Fin 0)
      then js_mul (js_div (js_sub (expectedAvgPrice e) (indianPrice opp)) (indianPrice opp)) (Fin 100)
      else Fin 1.0)"
  obtain ds where ds: "\<And>x. spreadAdjust (spreadPct opp) (Fin x) = Fin (x + ds)"
    using spreadAdjust_Fin by blast
  obtain df where df: "\<And>x. fillAdjust fr (Fin x) = Fin (x + df)"
    using fillAdjust_Fin by blast
  obtain dl where dl: "\<And>x. slippageAdjust sl (Fin x) = Fin (x + dl)"
    using slippageAdjust_Fin by blast
  define delta :: "jsnum \<Rightarrow> real" where
    "delta v = (if js_gt v (Fin 1.0) then 25 else if js_gt v (Fin 0.5) then 15
                else if js_lt v (Fin 0.1) then - 10 else 0)" for v
  define d1 where "d1 = delta (historyVolatility h1)"
  define d2 where "d2 = delta (historyVolatility h2)"
  have d: "d1 \<le> d2"
    unfolding d1_def d2_def delta_def by (rule volatility_delta_mono [OF assms])
  have v1: "volatilityAdjust (historyVolatility h1) (Fin x) = Fin (x + d1)" for x
    unfolding d1_def delta_def by (rule volatilityAdjust_Fin)
  have v2: "volatilityAdjust (historyVolatility h2) (Fin x) = Fin (x + d2)" for x
    unfolding d2_def delta_def by (rule volatilityAdjust_Fin)
  have s1: "riskScore (assessRisk opp tq h1 liq)
              = js_max (Fin 0) (js_min (Fin 100) (Fin (50 + ds + d1 + df + dl)))"
    using Some by (simp add: assessRisk_def Let_def ds v1 df dl fr_def [symmetric] sl_def [symmetric])
  have s2: "riskScore (assessRisk opp tq h2 liq)
              = js_max (Fin 0) (js_min (Fin 100) (Fin (50 + ds + d2 + df + dl)))"
    using Some by (simp add: assessRisk_def Let_def ds v2 df dl fr_def [symmetric] sl_def [symmetric])
  show ?thesis
    unfolding s1 s2 using d by (intro clamp_score_mono) simp
qed

text \<open>
  An empty history (assumed volatility 0.5, score 35) against the history 3, 5
  (volatility 25, score 60).
\<close>

theorem assessRisk_monotone_in_volatility_witness:
  "historyVolatility [] = Fin 0.5
   \<and> historyVolatility [\<lparr>price = Fin 3, tickTimestamp = 1\<rparr>, \<lparr>price = Fin 5, tickTimestamp = 2\<rparr>]
       = Fin 25
   \<and> riskScore (assessRisk sampleOpportunity None [] (Some (liquidityEstimate sampleRisk))) = Fin 35
   \<and> riskScore (assessRisk sampleOpportunity None
        [\<lparr>price = Fin 3, tickTimestamp = 1\<rparr>, \<lparr>price = Fin 5, tickTimestamp = 2\<rparr>]
        (Some (liquidityEstimate sampleRisk))) = Fin 60
   \<and> js_le (riskScore (assessRisk sampleOpportunity None [] (Some (liquidityEstimate sampleRisk))))
        (riskScore (assessRisk sampleOpportunity None
        [\<lparr>price = Fin 3, tickTimestamp = 1\<rparr>, \<lparr>price = Fin 5, tickTimestamp = 2\<rparr>]
        (Some (liquidityEstimate sampleRisk))))"
proof -
  have v1: "historyVolatility [] = Fin 0.5"
    by (simp add: historyVolatility_def)
  have v2: "historyVolatility [\<lparr>price = Fin 3, tickTimestamp = 1\<rparr>, \<lparr>price = Fin 5, tickTimestamp = 2\<rparr>]
       = Fin 25"
    by (simp add: historyVolatility_def Let_def js_sub_def)
  have le: "js_le (historyVolatility [])
      (historyVolatility [\<lparr>price = Fin 3, tickTimestamp = 1\<rparr>, \<lparr>price = Fin 5, tickTimestamp = 2\<rparr>])"
    unfolding v1 v2 by (simp add: js_le_def)
  note ev = assessRisk_def Let_def spreadAdjust_def volatilityAdjust_def fillAdjust_def
    slippageAdjust_def js_gt_def js_ge_def js_le_def js_sub_def js_max_def js_min_def
    sampleOpportunity_def sampleRisk_def
  have r1: "riskScore (assessRisk sampleOpportunity None [] (Some (liquidityEstimate sampleRisk))) = Fin 35"
    unfolding assessRisk_def v1 by (simp add: ev)
  have r2: "riskScore (assessRisk sampleOpportunity None
        [\<lparr>price = Fin 3, tickTimestamp = 1\<rparr>, \<lparr>price = Fin 5, tickTimestamp = 2\<rparr>]
        (Some (liquidityEstimate sampleRisk))) = Fin 60"
    unfolding assessRisk_def v2 by (simp add: ev)
  show ?thesis
    using assessRisk_monotone_in_volatility [OF le, of sampleOpportunity None
        "Some (liquidityEstimate sampleRisk)"] v1 v2 r1 r2
    by simp
qed

section \<open>Detector: the loop and its invariant\<close>

lemma jsInsert_set: "set (jsInsert cmp x ys) = insert x (set ys)"
  by (induction ys) auto

lemma jsSort_set: "set (jsSort cmp xs) = set xs"
  by (induction xs) (simp_all add: jsSort_def jsInsert_set)

lemma detectStep_seenKeys:
  "seenKeys (detectStep opts now newId st pd) = seenKeys st \<union> {k. observes opts pd k}"
  by (auto simp: detectStep_def observes_def Let_def)

lemma detectStep_unobserved:
  "\<not> observes opts pd k \<Longrightarrow>
     persistenceBuffer (detectStep opts now newId st pd) k = persistenceBuffer st k"
  by (auto simp: detectStep_def observes_def Let_def)

lemma detectStep_keeps:
  "persistenceBuffer st k \<noteq> None \<Longrightarrow>
     persistenceBuffer (detectStep opts now newId st pd) k \<noteq> None"
  by (auto simp: detectStep_def Let_def)

lemma detectStep_observed:
  "observes opts pd k \<Longrightarrow> persistenceBuffer (detectStep opts now newId st pd) k \<noteq> None"
  by (auto simp: detectStep_def observes_def Let_def)

lemma detectStep_below_minimum:
  "js_lt (js_abs (spreadPctOf pd)) (optMinSpreadPct opts) \<Longrightarrow>
     detectStep opts now newId st pd = st"
  by (simp add: detectStep_def Let_def)

lemma foldl_seenKeys:
  "seenKeys (foldl (detectStep opts now newId) st prices)
     = seenKeys st \<union> {k. \<exists>pd \<in> set prices. observes opts pd k}"
  by (induction prices arbitrary: st) (auto simp: detectStep_seenKeys)

lemma foldl_unobserved:
  "\<forall>pd \<in> set prices. \<not> observes opts pd k \<Longrightarrow>
     persistenceBuffer (foldl (detectStep opts now newId) st prices) k = persistenceBuffer st k"
  by (induction prices arbitrary: st) (simp_all add: detectStep_unobserved)

lemma foldl_keeps:
  "persistenceBuffer st k \<noteq> None \<Longrightarrow>
     persistenceBuffer (foldl (detectStep opts now newId) st prices) k \<noteq> None"
proof (induction prices arbitrary: st)
  case Nil
  then show ?case by simp
next
  case (Cons pd prices)
  from Cons.prems have "persistenceBuffer (detectStep opts now newId st pd) k \<noteq> None"
    by (rule detectStep_keeps)
  then have "persistenceBuffer
      (foldl (detectStep opts now newId) (detectStep opts now newId st pd) prices) k \<noteq> None"
    by (rule Cons.IH)
  then show ?case by simp
qed

lemma foldl_observed:
  "\<exists>pd \<in> set prices. observes opts pd k \<Longrightarrow>
     persistenceBuffer (foldl (detectStep opts now newId) st prices) k \<noteq> None"
proof (induction prices arbitrary: st)
  case Nil
  then show ?case by simp
next
  case (Cons pd prices)
  show ?case
  proof (cases "observes opts pd k")
    case True
    then show ?thesis
      using foldl_keeps [OF detectStep_observed [OF True]] by simp
  next
    case False
    with Cons.prems have "\<exists>pd \<in> set prices. observes opts pd k" by simp
    then show ?thesis using Cons.IH by simp
  qed
qed

lemma updateEntry_fields:
  "firstSeenTs (data (updateEntry now spread pd p)) = firstSeenTs (data p)"
  "lastSeenTs (data (updateEntry now spread pd p)) = now"
  "persistenceCount (data (updateEntry now spread pd p)) = bufPersistenceCount p + 1"
  "symbol (data (updateEntry now spread pd p)) = symbol (data p)"
  "action (data (updateEntry now spread pd p)) = action (data p)"
  "bufFirstSeenTs (updateEntry now spread pd p) = bufFirstSeenTs p"
  "bufLastSeenTs (updateEntry now spread pd p) = now"
  "bufPersistenceCount (updateEntry now spread pd p) = bufPersistenceCount p + 1"
  by (simp_all add: updateEntry_def)

lemma newEntry_fields:
  "firstSeenTs (data (newEntry now spread act key fid pd)) = now"
  "lastSeenTs (data (newEntry now spread act key fid pd)) = now"
  "persistenceCount (data (newEntry now spread act key fid pd)) = 1"
  "symbol (data (newEntry now spread act key fid pd)) = dpSymbol pd"
  "action (data (newEntry now spread act key fid pd)) = act"
  "bufFirstSeenTs (newEntry now spread act key fid pd) = now"
  "bufLastSeenTs (newEntry now spread act key fid pd) = now"
  "bufPersistenceCount (newEntry now spread act key fid pd) = 1"
  by (simp_all add: newEntry_def)

lemma updateEntry_consistent:
  "entryConsistent key p \<Longrightarrow> entryConsistent key (updateEntry now spread pd p)"
  by (simp add: entryConsistent_def updateEntry_fields)

lemma newEntry_consistent:
  "entryConsistent (keyOf (dpSymbol pd) act) (newEntry now spread act key fid pd)"
  by (simp add: entryConsistent_def newEntry_fields)

lemma consistent_entry_meets:
  assumes "entryConsistent key p" and "bufLastSeenTs p = now"
    and "entryMeetsCriteria opts now p"
  shows "meetsPersistence opts (data p)"
  using assms by (auto simp: entryConsistent_def entryMeetsCriteria_def meetsPersistence_def Let_def)

text \<open>The result of an iteration that passes both guards, with the new entry named.\<close>

lemma detectStep_result:
  assumes "observes opts pd k"
  obtains e where
    "detectStep opts now newId st pd
       = \<lparr>persistenceBuffer = (persistenceBuffer st)(k \<mapsto> e),
          seenKeys = insert k (seenKeys st),
          opportunities = (if entryMeetsCriteria opts now e
                           then opportunities st @ [data e] else opportunities st)\<rparr>"
    and "bufLastSeenTs e = now"
    and "(\<forall>p. persistenceBuffer st k = Some p \<longrightarrow> entryConsistent k p) \<longrightarrow> entryConsistent k e"
proof (cases "persistenceBuffer st k")
  case None
  let ?e = "newEntry now (spreadPctOf pd) (actionOf (spreadPctOf pd)) k (newId pd) pd"
  show ?thesis
  proof (rule that [of ?e])
    show "detectStep opts now newId st pd
       = \<lparr>persistenceBuffer = (persistenceBuffer st)(k \<mapsto> ?e),
          seenKeys = insert k (seenKeys st),
          opportunities = (if entryMeetsCriteria opts now ?e
                           then opportunities st @ [data ?e] else opportunities st)\<rparr>"
      using assms None by (simp add: detectStep_def observes_def Let_def)
    show "bufLastSeenTs ?e = now" by (simp add: newEntry_fields)
    show "(\<forall>p. persistenceBuffer st k = Some p \<longrightarrow> entryConsistent k p) \<longrightarrow> entryConsistent k ?e"
      using assms newEntry_consistent [of pd "actionOf (spreadPctOf pd)" now "spreadPctOf pd" k "newId pd"]
      by (simp add: observes_def)
  qed
next
  case (Some p)
  let ?e = "updateEntry now (spreadPctOf pd) pd p"
  show ?thesis
  proof (rule that [of ?e])
    show "detectStep opts now newId st pd
       = \<lparr>persistenceBuffer = (persistenceBuffer st)(k \<mapsto> ?e),
          seenKeys = insert k (seenKeys st),
          opportunities = (if entryMeetsCriteria opts now ?e
                           then opportunities st @ [data ?e] else opportunities st)\<rparr>"
      using assms Some by (simp add: detectStep_def observes_def Let_def)
    show "bufLastSeenTs ?e = now" by (simp add: updateEntry_fields)
    show "(\<forall>p. persistenceBuffer st k = Some p \<longrightarrow> entryConsistent k p) \<longrightarrow> entryConsistent k ?e"
      using Some by (simp add: updateEntry_consistent)
  qed
qed

lemma detectStep_pollInv:
  assumes "pollInv opts st"
  shows "pollInv opts (detectStep opts now newId st pd)"
proof (cases "\<exists>k. observes opts pd k")
  case False
  then have "detectStep opts now newId st pd = st"
    by (auto simp: detectStep_def observes_def Let_def)
  with assms show ?thesis by simp
next
  case True
  then obtain k where k: "observes opts pd k" by blast
  have cons: "\<And>key p. persistenceBuffer st key = Some p \<Longrightarrow> entryConsistent key p"
    and opps: "\<And>opp. opp \<in> set (opportunities st) \<Longrightarrow>
        meetsPersistence opts opp \<and> keyOf (symbol opp) (action opp) \<in> seenKeys st"
    using assms by (simp_all add: pollInv_def bufferConsistent_def)
  from detectStep_result [OF k, of now newId st] obtain e where
    eq: "detectStep opts now newId st pd
       = \<lparr>persistenceBuffer = (persistenceBuffer st)(k \<mapsto> e),
          seenKeys = insert k (seenKeys st),
          opportunities = (if entryMeetsCriteria opts now e
                           then opportunities st @ [data e] else opportunities st)\<rparr>"
    and last: "bufLastSeenTs e = now"
    and ec: "(\<forall>p. persistenceBuffer st k = Some p \<longrightarrow> entryConsistent k p) \<longrightarrow> entryConsistent k e"
    by blast
  have e: "entryConsistent k e" using ec cons by blast
  have buf: "bufferConsistent (persistenceBuffer (detectStep opts now newId st pd))"
    unfolding bufferConsistent_def eq using e cons by simp
  have "meetsPersistence opts opp \<and> keyOf (symbol opp) (action opp)
            \<in> seenKeys (detectStep opts now newId st pd)"
    if "opp \<in> set (opportunities (detectStep opts now newId st pd))" for opp
  proof (cases "opp \<in> set (opportunities st)")
    case True
    then show ?thesis using opps [OF True] by (simp add: eq)
  next
    case False
    with that have new: "opp = data e" and crit: "entryMeetsCriteria opts now e"
      by (auto simp: eq split: if_splits)
    have "meetsPersistence opts opp"
      unfolding new by (rule consistent_entry_meets [OF e last crit])
    moreover have "keyOf (symbol opp) (action opp) = k"
      using e by (simp add: new entryConsistent_def)
    ultimately show ?thesis by (simp add: eq)
  qed
  with buf show ?thesis by (simp add: pollInv_def)
qed

lemma foldl_pollInv:
  "pollInv opts st \<Longrightarrow> pollInv opts (foldl (detectStep opts now newId) st prices)"
  by (induction prices arbitrary: st) (simp_all add: detectStep_pollInv)

lemma purgeStale_consistent:
  "bufferConsistent buf \<Longrightarrow> bufferConsistent (purgeStale now seen buf)"
  by (auto simp: bufferConsistent_def purgeStale_def split: option.splits if_splits)

lemma initial_pollInv:
  "bufferConsistent buf \<Longrightarrow>
     pollInv opts \<lparr>persistenceBuffer = buf, seenKeys = {}, opportunities = []\<rparr>"
  by (simp add: pollInv_def)

lemma detectArbitrage_consistent:
  "bufferConsistent buf \<Longrightarrow> bufferConsistent (snd (detectArbitrage opts now newId prices buf))"
  using foldl_pollInv [OF initial_pollInv, of buf opts now newId prices]
  by (simp add: detectArbitrage_def Let_def purgeStale_consistent pollInv_def)

lemma reachable_consistent: "reachableBuffer buf \<Longrightarrow> bufferConsistent buf"
proof (induction rule: reachableBuffer.induct)
  case initial
  show ?case by (simp add: bufferConsistent_def)
next
  case (poll buf opts currentTime newId prices)
  from poll.IH show ?case by (rule detectArbitrage_consistent)
qed

lemma detectArbitrage_emitted:
  assumes "bufferConsistent buf"
    and "opp \<in> set (fst (detectArbitrage opts now newId prices buf))"
  shows "meetsPersistence opts opp"
    and "\<exists>pd \<in> set prices. observes opts pd (keyOf (symbol opp) (action opp))"
proof -
  let ?st = "foldl (detectStep opts now newId)
               \<lparr>persistenceBuffer = buf, seenKeys = {}, opportunities = []\<rparr> prices"
  have inv: "pollInv opts ?st"
    using assms(1) by (intro foldl_pollInv initial_pollInv)
  have mem: "opp \<in> set (opportunities ?st)"
    using assms(2) by (simp add: detectArbitrage_def Let_def jsSort_set)
  show "meetsPersistence opts opp"
    using inv mem by (simp add: pollInv_def)
  have "keyOf (symbol opp) (action opp) \<in> seenKeys ?st"
    using inv mem by (simp add: pollInv_def)
  then show "\<exists>pd \<in> set prices. observes opts pd (keyOf (symbol opp) (action opp))"
    by (simp add: foldl_seenKeys)
qed

section \<open>Detector: only persistent opportunities are emitted\<close>

text \<open>
  Claim C5. From every buffer the detector can hold, every opportunity in the list
  returned by \<open>detectArbitrage\<close> satisfies
  \<open>lastSeenTs - firstSeenTs \<ge> persistenceMs\<close> or
  \<open>persistenceCount \<ge> minPersistenceCount\<close> (defaults 2000 and 2). And an iteration
  whose buffer entry, after the insertion or update, meets neither criterion pushes
  nothing.
\<close>

theorem detectArbitrage_emits_persistent_only:
  assumes "reachableBuffer buf"
  shows "(\<forall>opp \<in> set (fst (detectArbitrage opts now newId prices buf)).
            js_ge (Fin (real_of_int (lastSeenTs opp - firstSeenTs opp))) (optPersistenceMs opts)
            \<or> js_ge (Fin (real (persistenceCount opp))) (optMinPersistenceCount opts))
       \<and> (\<forall>st pd k e.
            persistenceBuffer (detectStep opts now newId st pd) k = Some e
            \<and> observes opts pd k
            \<and> \<not> (js_ge (Fin (real_of_int (now - bufFirstSeenTs e))) (optPersistenceMs opts)
                 \<or> js_ge (Fin (real (bufPersistenceCount e))) (optMinPersistenceCount opts))
            \<longrightarrow> opportunities (detectStep opts now newId st pd) = opportunities st)"
proof (intro conjI ballI allI impI)
  fix opp
  assume "opp \<in> set (fst (detectArbitrage opts now newId prices buf))"
  then have "meetsPersistence opts opp"
    using detectArbitrage_emitted(1) [OF reachable_consistent [OF assms]] by blast
  then show "js_ge (Fin (real_of_int (lastSeenTs opp - firstSeenTs opp))) (optPersistenceMs opts)
            \<or> js_ge (Fin (real (persistenceCount opp))) (optMinPersistenceCount opts)"
    by (simp add: meetsPersistence_def)
next
  fix st pd k e
  assume a: "persistenceBuffer (detectStep opts now newId st pd) k = Some e
            \<and> observes opts pd k
            \<and> \<not> (js_ge (Fin (real_of_int (now - bufFirstSeenTs e))) (optPersistenceMs opts)
                 \<or> js_ge (Fin (real (bufPersistenceCount e))) (optMinPersistenceCount opts))"
  then have k: "observes opts pd k" by simp
  from detectStep_result [OF k, of now newId st] obtain e' where
    eq: "detectStep opts now newId st pd
       = \<lparr>persistenceBuffer = (persistenceBuffer st)(k \<mapsto> e'),
          seenKeys = insert k (seenKeys st),
          opportunities = (if entryMeetsCriteria opts now e'
                           then opportunities st @ [data e'] else opportunities st)\<rparr>"
    by blast
  have "e' = e" using a by (simp add: eq)
  then have "\<not> entryMeetsCriteria opts now e'"
    using a by (auto simp: entryMeetsCriteria_def Let_def)
  then show "opportunities (detectStep opts now newId st pd) = opportunities st"
    by (simp add: eq)
qed

section \<open>Detector: spreads below the minimum\<close>

text \<open>
  Claim C6. A price record whose \<open>|spreadPct|\<close> is below \<open>minSpreadPct\<close> (0.5 by
  default) leaves the state of the poll as it is: no buffer entry is inserted or
  updated, no key is marked as seen, nothing is pushed; and it is observed under no key.
  For a key that no price record of the poll is observed under, the buffer entry after
  the poll is the one before it or has been purged, and no returned opportunity belongs
  to that key.
\<close>

theorem detectArbitrage_skips_small_spreads:
  "(js_lt (js_abs (spreadPctOf pd)) (optMinSpreadPct opts) \<longrightarrow>
       detectStep opts now newId st pd = st \<and> (\<forall>k. \<not> observes opts pd k))
   \<and> ((\<forall>pd \<in> set prices. \<not> observes opts pd key) \<longrightarrow>
       (snd (detectArbitrage opts now newId prices buf) key = buf key
        \<or> snd (detectArbitrage opts now newId prices buf) key = None)
       \<and> (reachableBuffer buf \<longrightarrow>
            (\<forall>opp \<in> set (fst (detectArbitrage opts now newId prices buf)).
               keyOf (symbol opp) (action opp) \<noteq> key)))"
proof (intro conjI impI)
  assume "js_lt (js_abs (spreadPctOf pd)) (optMinSpreadPct opts)"
  then show "detectStep opts now newId st pd = st" "\<forall>k. \<not> observes opts pd k"
    by (simp_all add: detectStep_below_minimum observes_def)
next
  assume un: "\<forall>pd \<in> set prices. \<not> observes opts pd key"
  have "persistenceBuffer (foldl (detectStep opts now newId)
          \<lparr>persistenceBuffer = buf, seenKeys = {}, opportunities = []\<rparr> prices) key = buf key"
    using foldl_unobserved [OF un] by simp
  then show "snd (detectArbitrage opts now newId prices buf) key = buf key
        \<or> snd (detectArbitrage opts now newId prices buf) key = None"
    by (simp add: detectArbitrage_def Let_def purgeStale_def split: option.splits)
  assume r: "reachableBuffer buf"
  show "\<forall>opp \<in> set (fst (detectArbitrage opts now newId prices buf)).
               keyOf (symbol opp) (action opp) \<noteq> key"
    using detectArbitrage_emitted(2) [OF reachable_consistent [OF r]] un by blast
qed

section \<open>Detector: purge of stale keys\<close>

text \<open>
  Claim C8. After \<open>detectArbitrage\<close>, a buffered key that no price record of the poll
  was observed under and whose \<open>lastSeenTs\<close> is more than 10000 ms before the poll time
  is gone from the buffer; a key observed in the poll is buffered; and an unobserved key
  last seen at most 10000 ms before the poll time keeps its entry unchanged.
\<close>

theorem detectArbitrage_purges_stale:
  "((\<forall>pd \<in> set prices. \<not> observes opts pd key) \<and> buf key = Some p
       \<and> now - bufLastSeenTs p > 10000 \<longrightarrow>
       snd (detectArbitrage opts now newId prices buf) key = None)
   \<and> ((\<exists>pd \<in> set prices. observes opts pd key) \<longrightarrow>
       snd (detectArbitrage opts now newId prices buf) key \<noteq> None)
   \<and> ((\<forall>pd \<in> set prices. \<not> observes opts pd key) \<and> buf key = Some p
       \<and> now - bufLastSeenTs p \<le> 10000 \<longrightarrow>
       snd (detectArbitrage opts now newId prices buf) key = Some p)"
proof -
  let ?st = "foldl (detectStep opts now newId)
               \<lparr>persistenceBuffer = buf, seenKeys = {}, opportunities = []\<rparr> prices"
  have res: "snd (detectArbitrage opts now newId prices buf)
               = purgeStale now (seenKeys ?st) (persistenceBuffer ?st)"
    by (simp add: detectArbitrage_def Let_def)
  have seen: "key \<in> seenKeys ?st \<longleftrightarrow> (\<exists>pd \<in> set prices. observes opts pd key)"
    by (simp add: foldl_seenKeys)
  have un: "(\<forall>pd \<in> set prices. \<not> observes opts pd key) \<Longrightarrow> persistenceBuffer ?st key = buf key"
    using foldl_unobserved [of prices opts key now newId] by simp
  have ob: "(\<exists>pd \<in> set prices. observes opts pd key) \<Longrightarrow> persistenceBuffer ?st key \<noteq> None"
    by (rule foldl_observed)
  show ?thesis
  proof (intro conjI impI)
    assume a: "(\<forall>pd \<in> set prices. \<not> observes opts pd key) \<and> buf key = Some p
       \<and> now - bufLastSeenTs p > 10000"
    then have "key \<notin> seenKeys ?st" and "persistenceBuffer ?st key = Some p"
      using seen un by simp_all
    then show "snd (detectArbitrage opts now newId prices buf) key = None"
      using a by (simp add: res purgeStale_def)
  next
    assume a: "\<exists>pd \<in> set prices. observes opts pd key"
    then have "key \<in> seenKeys ?st" and "persistenceBuffer ?st key \<noteq> None"
      using seen ob by simp_all
    then show "snd (detectArbitrage opts now newId prices buf) key \<noteq> None"
      by (auto simp: res purgeStale_def)
  next
    assume a: "(\<forall>pd \<in> set prices. \<not> observes opts pd key) \<and> buf key = Some p
       \<and> now - bufLastSeenTs p \<le> 10000"
    then have "persistenceBuffer ?st key = Some p"
      using un by simp
    then show "snd (detectArbitrage opts now newId prices buf) key = Some p"
      using a by (simp add: res purgeStale_def)
  qed
qed

section \<open>Detector: the sample scenario\<close>

text \<open>
  Two polls that see BTCUSDT at 50000 and 50750: the first creates the entry and emits
  nothing, the second (one second later) emits the opportunity with count 2.
\<close>

lemma samplePrice_observed: "observes defaultOptions samplePrice sampleKey"
  by (simp add: observes_def defaultOptions_def samplePrice_def sampleKey_def js_truthy_def
      spreadPctOf_def optMinSpreadPct_def js_sub_def actionOf_def keyOf_def js_gt_def)

lemma smallSpreadPrice_below:
  "js_lt (js_abs (spreadPctOf smallSpreadPrice)) (optMinSpreadPct defaultOptions)"
  by (simp add: defaultOptions_def smallSpreadPrice_def spreadPctOf_def optMinSpreadPct_def
      js_sub_def)

lemma bufferAfterFirstPoll_entry:
  "bufferAfterFirstPoll sampleKey
     = Some \<lparr>opportunityKey = sampleKey, bufFirstSeenTs = 1000, bufLastSeenTs = 1000,
             bufPersistenceCount = 1,
             data = \<lparr>oppId = ''opp_BTCUSDT_1'', symbol = ''BTCUSDT'', spreadPct = Fin 1.5,
                     action = ''buy-binance-sell-india'', estimatedGrossProfitPct = Fin 1.2,
                     binancePrice = Fin 50000, indianPrice = Fin 50750,
                     firstSeenTs = 1000, lastSeenTs = 1000, persistenceCount = 1\<rparr>\<rparr>"
  by (simp add: bufferAfterFirstPoll_def detectArbitrage_def Let_def detectStep_def
      defaultOptions_def samplePrice_def sampleKey_def js_truthy_def
      spreadPctOf_def optMinSpreadPct_def js_sub_def actionOf_def keyOf_def js_gt_def
      newEntry_def purgeStale_def)

lemma first_poll_emits_nothing:
  "fst (detectArbitrage defaultOptions 1000 (\<lambda>_. ''opp_BTCUSDT_1'') [samplePrice] Map.empty) = []"
  by (simp add: detectArbitrage_def Let_def detectStep_def
      defaultOptions_def samplePrice_def js_truthy_def
      spreadPctOf_def optMinSpreadPct_def js_sub_def actionOf_def keyOf_def js_gt_def
      newEntry_def entryMeetsCriteria_def optMinPersistenceCount_def optPersistenceMs_def
      js_ge_def js_le_def jsSort_def)

lemma second_poll_emits:
  "fst (detectArbitrage defaultOptions 2000 (\<lambda>_. ''opp_BTCUSDT_2'') [samplePrice]
          bufferAfterFirstPoll)
     = [\<lparr>oppId = ''opp_BTCUSDT_1'', symbol = ''BTCUSDT'', spreadPct = Fin 1.5,
         action = ''buy-binance-sell-india'', estimatedGrossProfitPct = Fin 1.2,
         binancePrice = Fin 50000, indianPrice = Fin 50750,
         firstSeenTs = 1000, lastSeenTs = 2000, persistenceCount = 2\<rparr>]"
proof -
  have key: "keyOf (dpSymbol samplePrice) (actionOf (spreadPctOf samplePrice)) = sampleKey"
    using samplePrice_observed by (simp add: observes_def)
  show ?thesis
    using samplePrice_observed
    by (simp add: detectArbitrage_def Let_def detectStep_def observes_def key
      bufferAfterFirstPoll_entry updateEntry_def entryMeetsCriteria_def
      optMinPersistenceCount_def optPersistenceMs_def defaultOptions_def
      js_ge_def js_le_def jsSort_def)
     (simp add: samplePrice_def spreadPctOf_def js_sub_def)
qed

lemma bufferAfterFirstPoll_reachable: "reachableBuffer bufferAfterFirstPoll"
  unfolding bufferAfterFirstPoll_def
  by (rule reachableBuffer.poll [OF reachableBuffer.initial])

theorem detectArbitrage_emits_persistent_only_witness:
  "reachableBuffer bufferAfterFirstPoll
   \<and> fst (detectArbitrage defaultOptions 1000 (\<lambda>_. ''opp_BTCUSDT_1'') [samplePrice] Map.empty) = []
   \<and> fst (detectArbitrage defaultOptions 2000 (\<lambda>_. ''opp_BTCUSDT_2'') [samplePrice]
          bufferAfterFirstPoll)
     = [\<lparr>oppId = ''opp_BTCUSDT_1'', symbol = ''BTCUSDT'', spreadPct = Fin 1.5,
         action = ''buy-binance-sell-india'', estimatedGrossProfitPct = Fin 1.2,
         binancePrice = Fin 50000, indianPrice = Fin 50750,
         firstSeenTs = 1000, lastSeenTs = 2000, persistenceCount = 2\<rparr>]
   \<and> (js_ge (Fin (real_of_int (2000 - 1000))) (optPersistenceMs defaultOptions)
      \<or> js_ge (Fin (real (2::nat))) (optMinPersistenceCount defaultOptions))"
  using detectArbitrage_emits_persistent_only [OF bufferAfterFirstPoll_reachable,
      of defaultOptions 2000 "\<lambda>_. ''opp_BTCUSDT_2''" "[samplePrice]"]
    bufferAfterFirstPoll_reachable first_poll_emits_nothing
  by (simp add: second_poll_emits)

theorem detectArbitrage_skips_small_spreads_witness:
  "js_lt (js_abs (spreadPctOf smallSpreadPrice)) (optMinSpreadPct defaultOptions)
   \<and> detectStep defaultOptions 2000 (\<lambda>_. ''opp_BTCUSDT_2'')
        \<lparr>persistenceBuffer = bufferAfterFirstPoll, seenKeys = {}, opportunities = []\<rparr>
        smallSpreadPrice
      = \<lparr>persistenceBuffer = bufferAfterFirstPoll, seenKeys = {}, opportunities = []\<rparr>
   \<and> fst (detectArbitrage defaultOptions 2000 (\<lambda>_. ''opp_BTCUSDT_2'') [smallSpreadPrice]
          bufferAfterFirstPoll) = []
   \<and> snd (detectArbitrage defaultOptions 2000 (\<lambda>_. ''opp_BTCUSDT_2'') [smallSpreadPrice]
          bufferAfterFirstPoll) sampleKey = bufferAfterFirstPoll sampleKey"
proof -
  have step: "detectStep defaultOptions 2000 (\<lambda>_. ''opp_BTCUSDT_2'')
        \<lparr>persistenceBuffer = bufferAfterFirstPoll, seenKeys = {}, opportunities = []\<rparr>
        smallSpreadPrice
      = \<lparr>persistenceBuffer = bufferAfterFirstPoll, seenKeys = {}, opportunities = []\<rparr>"
    using detectArbitrage_skips_small_spreads [of smallSpreadPrice defaultOptions 2000
        "\<lambda>_. ''opp_BTCUSDT_2''"
        "\<lparr>persistenceBuffer = bufferAfterFirstPoll, seenKeys = {}, opportunities = []\<rparr>"
        "[smallSpreadPrice]" sampleKey bufferAfterFirstPoll]
      smallSpreadPrice_below
    by simp
  show ?thesis
    using smallSpreadPrice_below
    by (simp add: step detectArbitrage_def Let_def jsSort_def purgeStale_def
        bufferAfterFirstPoll_entry)
qed

theorem detectArbitrage_purges_stale_witness:
  "snd (detectArbitrage defaultOptions 20000 (\<lambda>_. ''opp_BTCUSDT_2'') [] bufferAfterFirstPoll)
      sampleKey = None
   \<and> snd (detectArbitrage defaultOptions 20000 (\<lambda>_. ''opp_BTCUSDT_2'') [samplePrice]
        bufferAfterFirstPoll) sampleKey \<noteq> None
   \<and> snd (detectArbitrage defaultOptions 5000 (\<lambda>_. ''opp_BTCUSDT_2'') [] bufferAfterFirstPoll)
      sampleKey = bufferAfterFirstPoll sampleKey"
  using detectArbitrage_purges_stale [of "[]" defaultOptions sampleKey bufferAfterFirstPoll
      "the (bufferAfterFirstPoll sampleKey)" 20000 "\<lambda>_. ''opp_BTCUSDT_2''"]
    detectArbitrage_purges_stale [of "[samplePrice]" defaultOptions sampleKey bufferAfterFirstPoll
      "the (bufferAfterFirstPoll sampleKey)" 20000 "\<lambda>_. ''opp_BTCUSDT_2''"]
    detectArbitrage_purges_stale [of "[]" defaultOptions sampleKey bufferAfterFirstPoll
      "the (bufferAfterFirstPoll sampleKey)" 5000 "\<lambda>_. ''opp_BTCUSDT_2''"]
    samplePrice_observed
  by (simp add: bufferAfterFirstPoll_entry)

section \<open>Execution engine: partial fills and rollback\<close>









text \<open>
  The quantities of a generated book, for draws of \<open>Math.random()\<close> between 0 and 1,
  are non-negative.
\<close>

lemma indianOrderBookAsks_nonneg:
  assumes fr: "faithfulRounding rnd" and "\<forall>r \<in> set rands. 0 \<le> r \<and> r \<le> 1"
  shows "\<forall>(p, q) \<in> set (indianOrderBookAsks rnd midPrice spreadPercent rands). js_ge q (Fin 0)"
proof -
  have "js_ge (fl_add rnd (Fin 0.1) (fl_mul rnd (Fin r) (Fin 5))) (Fin 0)"
    if r: "0 \<le> r" "r \<le> 1" for r
  proof -
    have m: "js_mul (Fin r) (Fin 5) = Fin (r * 5)"
      using r(1) by auto
    have a: "fl rnd (Fin (r * 5)) = Fin (rnd (r * 5))" "0 \<le> rnd (r * 5)" "rnd (r * 5) \<le> 5"
      using fl_nonneg_bounded [OF fr, of "r * 5" 5] r by simp_all
    have b: "fl rnd (Fin (0.1 + rnd (r * 5))) = Fin (rnd (0.1 + rnd (r * 5)))"
      "0 \<le> rnd (0.1 + rnd (r * 5))"
      using fl_nonneg_bounded [OF fr, of "0.1 + rnd (r * 5)" 6] a(2,3) by simp_all
    have "fl_mul rnd (Fin r) (Fin 5) = Fin (rnd (r * 5))"
      using a(1) by (simp only: fl_mul_def m)
    then show ?thesis
      using b by (simp add: fl_add_def js_ge_def js_le_def)
  qed
  then show ?thesis
    using assms(2) by (auto simp: indianOrderBookAsks_def in_set_enumerate_eq)
qed








end
